theory Spec2Isabelle
  imports Complex_Main
begin

section \<open>Python values, exceptions and calls\<close>

text \<open>
  The callbacks of \<^verbatim>\<open>probflow/callbacks.py\<close> are Python objects that are mutated in
  place and that call back into the object that trains the model (\<^verbatim>\<open>self.model\<close>).
  A method is embedded as a function from the state before the call (the callback's
  fields and the state of the trainer) to the state after it, paired with the exception
  that left the method, if any: a Python exception does not undo the assignments made
  before it was raised.

  The trainer is not part of the module. Its state is a type variable and each of its
  methods is a parameter of the callback method that calls it: a function that returns the
  trainer's next state together with the exception it raised or its result. The callback
  is taken to be attached to a trainer (the attribute \<^verbatim>\<open>self.model\<close> exists), and a
  schedule \<^verbatim>\<open>fn\<close> is taken to be a function of the epoch alone.
\<close>

datatype exn =
    TypeError string
  | ValueError string
  | AttributeError string
  | Exception string

text \<open>
  A Python float: the finite values (compared as the numbers they denote), the two
  infinities and NaN. \<^verbatim>\<open><\<close> is false whenever an operand is NaN.
\<close>

datatype pyfloat = Finite real | PosInf | NegInf | NaN

fun float_lt :: "pyfloat \<Rightarrow> pyfloat \<Rightarrow> bool" where
  "float_lt (Finite a) (Finite b) = (a < b)"
| "float_lt (Finite a) PosInf = True"
| "float_lt (Finite a) NegInf = False"
| "float_lt (Finite a) NaN = False"
| "float_lt PosInf b = False"
| "float_lt NegInf (Finite b) = True"
| "float_lt NegInf PosInf = True"
| "float_lt NegInf NegInf = False"
| "float_lt NegInf NaN = False"
| "float_lt NaN b = False"

text \<open>The Python objects a constructor argument can be, as far as the checks tell them apart.\<close>

datatype pyval =
    VFloat pyfloat
  | VInt int
  | VBool bool
  | VStr string
  | VNone

text \<open>\<^verbatim>\<open>isinstance(v, float)\<close>.\<close>

fun isinstance_float :: "pyval \<Rightarrow> bool" where
  "isinstance_float (VFloat x) = True"
| "isinstance_float v = False"

text \<open>\<^verbatim>\<open>isinstance(v, int)\<close>: \<^verbatim>\<open>bool\<close> is a subclass of \<^verbatim>\<open>int\<close>.\<close>

fun isinstance_int :: "pyval \<Rightarrow> bool" where
  "isinstance_int (VInt i) = True"
| "isinstance_int (VBool b) = True"
| "isinstance_int v = False"

text \<open>The number an instance of \<^verbatim>\<open>int\<close> denotes in a comparison (\<^verbatim>\<open>True\<close> is 1).\<close>

fun int_value :: "pyval \<Rightarrow> int" where
  "int_value (VInt i) = i"
| "int_value (VBool b) = (if b then 1 else 0)"
| "int_value v = 0"

text \<open>An argument that is tested with \<^verbatim>\<open>callable\<close>: a function, or some other object.\<close>

datatype 'f pyarg = Callable 'f | NotCallable pyval

text \<open>
  Successive calls of one method, as the epoch loop makes them: the call for each element
  of the list in turn, ended by the first exception.
\<close>

fun calls :: "('e \<Rightarrow> 's \<Rightarrow> 's \<times> exn option) \<Rightarrow> 'e list \<Rightarrow> 's \<Rightarrow> 's \<times> exn option" where
  "calls step [] s = (s, None)"
| "calls step (e # es) s =
     (case step e s of
        (s', None) \<Rightarrow> calls step es s'
      | (s', Some x) \<Rightarrow> (s', Some x))"

section \<open>EarlyStopping\<close>

text \<open>
  \<^verbatim>\<open>metric_fn\<close> is a closure without arguments that reads a value outside the callback
  (the example of the docstring reads \<^verbatim>\<open>monitor_mae.current_metric\<close>): a function of
  the surroundings \<open>'w\<close> at the time of the call, which may raise.
\<close>

record 'w EarlyStopping =
  es_metric_fn :: "'w \<Rightarrow> exn + pyfloat"
  patience :: int
  best :: pyfloat
  count :: int

definition EarlyStopping_init ::
  "('w \<Rightarrow> exn + pyfloat) pyarg \<Rightarrow> pyval \<Rightarrow> exn + 'w EarlyStopping" where
  "EarlyStopping_init metric_fn patience_arg =
     (if \<not> isinstance_int patience_arg then Inl (TypeError ''patience must be an int'')
      else if int_value patience_arg < 0 then Inl (ValueError ''patience must be non-negative'')
      else (case metric_fn of
              NotCallable v \<Rightarrow> Inl (TypeError ''metric_fn must be a callable'')
            | Callable f \<Rightarrow>
                Inr \<lparr>es_metric_fn = f, patience = int_value patience_arg,
                     best = PosInf, count = 0\<rparr>))"

definition EarlyStopping_on_epoch_end ::
  "('t \<Rightarrow> 't \<times> exn option) \<Rightarrow> 'w \<Rightarrow> 'w EarlyStopping \<times> 't
     \<Rightarrow> ('w EarlyStopping \<times> 't) \<times> exn option" where
  "EarlyStopping_on_epoch_end stop_training w st =
     (case st of (self, model) \<Rightarrow>
        (case es_metric_fn self w of
           Inl x \<Rightarrow> ((self, model), Some x)
         | Inr metric \<Rightarrow>
             if float_lt metric (best self)
             then ((self\<lparr>best := metric, count := 0\<rparr>, model), None)
             else
               (let self1 = self\<lparr>count := count self + 1\<rparr> in
                if count self1 > patience self1
                then (case stop_training model of (model1, r) \<Rightarrow> ((self1, model1), r))
                else ((self1, model), None))))"

text \<open>
  The construction of an \<^verbatim>\<open>EarlyStopping\<close> followed by one call of
  \<^verbatim>\<open>on_epoch_end\<close> for each of the surroundings \<open>ws\<close>, on a trainer in state
  \<open>model\<close>. A construction that raises gives no callback to call.
\<close>

definition EarlyStopping_session ::
  "('t \<Rightarrow> 't \<times> exn option) \<Rightarrow> ('w \<Rightarrow> exn + pyfloat) pyarg \<Rightarrow> pyval \<Rightarrow> 'w list \<Rightarrow> 't
     \<Rightarrow> exn + (('w EarlyStopping \<times> 't) \<times> exn option)" where
  "EarlyStopping_session stop_training metric_fn patience_arg ws model =
     (case EarlyStopping_init metric_fn patience_arg of
        Inl x \<Rightarrow> Inl x
      | Inr self \<Rightarrow> Inr (calls (EarlyStopping_on_epoch_end stop_training) ws (self, model)))"

text \<open>A trainer that only counts the stop signals it has received.\<close>

definition count_stops :: "nat \<Rightarrow> nat \<times> exn option" where
  "count_stops n = (Suc n, None)"

text \<open>An accessor that returns the value its surroundings hold.\<close>

definition read_value :: "pyfloat \<Rightarrow> exn + pyfloat" where
  "read_value v = Inr v"

section \<open>LearningRateScheduler and KLWeightScheduler\<close>

text \<open>
  \<^verbatim>\<open>fn\<close> is the schedule: a function of the epoch that returns some Python object or
  raises. The constructor only looks at \<^verbatim>\<open>fn(1)\<close>; later values are stored and passed
  on as they are. \<^verbatim>\<open>current_lr\<close> starts as the integer 0.
\<close>

record LearningRateScheduler =
  lr_fn :: "int \<Rightarrow> exn + pyval"
  lr_current_epoch :: int
  current_lr :: pyval
  lr_epochs :: "int list"
  learning_rate :: "pyval list"

definition LearningRateScheduler_init ::
  "(int \<Rightarrow> exn + pyval) pyarg \<Rightarrow> exn + LearningRateScheduler" where
  "LearningRateScheduler_init fn =
     (case fn of
        NotCallable v \<Rightarrow> Inl (TypeError ''fn must be a callable'')
      | Callable f \<Rightarrow>
          (case f 1 of
             Inl x \<Rightarrow> Inl x
           | Inr r \<Rightarrow>
               if \<not> isinstance_float r then Inl (TypeError ''fn must return a float'')
               else Inr \<lparr>lr_fn = f, lr_current_epoch = 0, current_lr = VInt 0,
                         lr_epochs = [], learning_rate = []\<rparr>))"

definition LearningRateScheduler_on_epoch_end ::
  "(pyval \<Rightarrow> 't \<Rightarrow> 't \<times> exn option) \<Rightarrow> LearningRateScheduler \<times> 't
     \<Rightarrow> (LearningRateScheduler \<times> 't) \<times> exn option" where
  "LearningRateScheduler_on_epoch_end set_learning_rate st =
     (case st of (self, model) \<Rightarrow>
        (let self1 = self\<lparr>lr_current_epoch := lr_current_epoch self + 1\<rparr> in
         case lr_fn self1 (lr_current_epoch self1) of
           Inl x \<Rightarrow> ((self1, model), Some x)
         | Inr r \<Rightarrow>
             (let self2 = self1\<lparr>current_lr := r\<rparr> in
              case set_learning_rate (current_lr self2) model of
                (model1, Some x) \<Rightarrow> ((self2, model1), Some x)
              | (model1, None) \<Rightarrow>
                  (let self3 = self2\<lparr>lr_epochs := lr_epochs self2 @ [lr_current_epoch self2]\<rparr>;
                       self4 = self3\<lparr>learning_rate := learning_rate self3 @ [current_lr self3]\<rparr>
                   in ((self4, model1), None)))))"

record KLWeightScheduler =
  kl_fn :: "int \<Rightarrow> exn + pyval"
  kl_current_epoch :: int
  current_w :: pyval
  kl_epochs :: "int list"
  kl_weights :: "pyval list"

definition KLWeightScheduler_init ::
  "(int \<Rightarrow> exn + pyval) pyarg \<Rightarrow> exn + KLWeightScheduler" where
  "KLWeightScheduler_init fn =
     (case fn of
        NotCallable v \<Rightarrow> Inl (TypeError ''fn must be a callable'')
      | Callable f \<Rightarrow>
          (case f 1 of
             Inl x \<Rightarrow> Inl x
           | Inr r \<Rightarrow>
               if \<not> isinstance_float r then Inl (TypeError ''fn must return a float'')
               else Inr \<lparr>kl_fn = f, kl_current_epoch = 0, current_w = VInt 0,
                         kl_epochs = [], kl_weights = []\<rparr>))"

definition KLWeightScheduler_on_epoch_end ::
  "(pyval \<Rightarrow> 't \<Rightarrow> 't \<times> exn option) \<Rightarrow> KLWeightScheduler \<times> 't
     \<Rightarrow> (KLWeightScheduler \<times> 't) \<times> exn option" where
  "KLWeightScheduler_on_epoch_end set_kl_weight st =
     (case st of (self, model) \<Rightarrow>
        (let self1 = self\<lparr>kl_current_epoch := kl_current_epoch self + 1\<rparr> in
         case kl_fn self1 (kl_current_epoch self1) of
           Inl x \<Rightarrow> ((self1, model), Some x)
         | Inr r \<Rightarrow>
             (let self2 = self1\<lparr>current_w := r\<rparr> in
              case set_kl_weight (current_w self2) model of
                (model1, Some x) \<Rightarrow> ((self2, model1), Some x)
              | (model1, None) \<Rightarrow>
                  (let self3 = self2\<lparr>kl_epochs := kl_epochs self2 @ [kl_current_epoch self2]\<rparr>;
                       self4 = self3\<lparr>kl_weights := kl_weights self3 @ [current_w self3]\<rparr>
                   in ((self4, model1), None)))))"

text \<open>
  \<open>n\<close> successive calls of a method that takes no argument, ended by the first
  exception.
\<close>

fun repeat_call :: "nat \<Rightarrow> ('s \<Rightarrow> 's \<times> exn option) \<Rightarrow> 's \<Rightarrow> 's \<times> exn option" where
  "repeat_call 0 step s = (s, None)"
| "repeat_call (Suc n) step s =
     (case step s of
        (s', None) \<Rightarrow> repeat_call n step s'
      | (s', Some x) \<Rightarrow> (s', Some x))"

text \<open>A trainer that only records the values its mutator was called with, in order.\<close>

definition record_value :: "pyval \<Rightarrow> pyval list \<Rightarrow> pyval list \<times> exn option" where
  "record_value v seen = (seen @ [v], None)"

text \<open>A trainer whose mutator raises on every call, leaving the trainer as it was.\<close>

definition refuse_value :: "pyval \<Rightarrow> pyval list \<Rightarrow> pyval list \<times> exn option" where
  "refuse_value v seen = (seen, Some (Exception ''mutator failed''))"

text \<open>Schedules for the instances below: \<open>1 / epoch\<close>, and one that raises from epoch 3 on.\<close>

definition decay_value :: "int \<Rightarrow> pyval" where
  "decay_value i = VFloat (Finite (1 / of_int i))"

definition decay :: "int \<Rightarrow> exn + pyval" where
  "decay i = Inr (decay_value i)"

definition fails_from_3 :: "int \<Rightarrow> exn + pyval" where
  "fails_from_3 i = (if i < 3 then Inr (VFloat (Finite 1)) else Inl (Exception ''schedule failed''))"

section \<open>MonitorMetric\<close>

text \<open>
  \<^verbatim>\<open>get_metric_fn\<close>, \<^verbatim>\<open>make_generator\<close> and the trainer's \<^verbatim>\<open>metric\<close> are defined
  outside this module and are parameters here, as is \<open>name_of\<close>, the lookup of the
  attribute \<^verbatim>\<open>__name__\<close> of the metric function. What \<^verbatim>\<open>print\<close> writes is kept as
  the list of the triples that were formatted into lines.
\<close>

record ('mf, 'd) MonitorMetric =
  mm_metric_fn :: 'mf
  data :: 'd
  current_metric :: pyfloat
  mm_current_epoch :: int
  metrics :: "pyfloat list"
  mm_epochs :: "int list"
  verbose :: bool

definition MonitorMetric_init ::
  "('m \<Rightarrow> exn + 'mf) \<Rightarrow> ('x \<Rightarrow> 'y option \<Rightarrow> exn + 'd) \<Rightarrow> 'm \<Rightarrow> 'x \<Rightarrow> 'y option \<Rightarrow> bool
     \<Rightarrow> exn + ('mf, 'd) MonitorMetric" where
  "MonitorMetric_init get_metric_fn make_generator metric x y verbose_arg =
     (case get_metric_fn metric of
        Inl e \<Rightarrow> Inl e
      | Inr mf \<Rightarrow>
          (case make_generator x y of
             Inl e \<Rightarrow> Inl e
           | Inr d \<Rightarrow>
               Inr \<lparr>mm_metric_fn = mf, data = d, current_metric = NaN, mm_current_epoch = 0,
                    metrics = [], mm_epochs = [], verbose = verbose_arg\<rparr>))"

definition MonitorMetric_on_epoch_end ::
  "('mf \<Rightarrow> 'd \<Rightarrow> 't \<Rightarrow> 't \<times> (exn + pyfloat)) \<Rightarrow> ('mf \<Rightarrow> exn + string)
     \<Rightarrow> ('mf, 'd) MonitorMetric \<times> 't \<times> (int \<times> string \<times> pyfloat) list
     \<Rightarrow> (('mf, 'd) MonitorMetric \<times> 't \<times> (int \<times> string \<times> pyfloat) list) \<times> exn option" where
  "MonitorMetric_on_epoch_end metric name_of st =
     (case st of (self, model, out) \<Rightarrow>
        (case metric (mm_metric_fn self) (data self) model of
           (model1, Inl x) \<Rightarrow> ((self, model1, out), Some x)
         | (model1, Inr m) \<Rightarrow>
             (let self1 = self\<lparr>current_metric := m\<rparr>;
                  self2 = self1\<lparr>mm_current_epoch := mm_current_epoch self1 + 1\<rparr>;
                  self3 = self2\<lparr>metrics := metrics self2 @ [current_metric self2]\<rparr>;
                  self4 = self3\<lparr>mm_epochs := mm_epochs self3 @ [mm_current_epoch self3]\<rparr>
              in if verbose self4
                 then (case name_of (mm_metric_fn self4) of
                         Inl x \<Rightarrow> ((self4, model1, out), Some x)
                       | Inr nm \<Rightarrow>
                           ((self4, model1,
                             out @ [(mm_current_epoch self4, nm, current_metric self4)]), None))
                 else ((self4, model1, out), None))))"

text \<open>
  Collaborators for the instances below: a resolver and a data source that return what they
  are given, the name of a metric function, a trainer whose metric is always 0.5 and one
  whose metric computation raises. Both trainers count the computations they were asked for.
\<close>

definition lookup_metric :: "string \<Rightarrow> exn + string" where
  "lookup_metric name = Inr name"

definition pair_data :: "'x \<Rightarrow> 'y option \<Rightarrow> exn + ('x \<times> 'y option)" where
  "pair_data x y = Inr (x, y)"

definition metric_name :: "string \<Rightarrow> exn + string" where
  "metric_name mf = Inr mf"

definition steady_metric :: "string \<Rightarrow> 'd \<Rightarrow> nat \<Rightarrow> nat \<times> (exn + pyfloat)" where
  "steady_metric mf d t = (Suc t, Inr (Finite (1 / 2)))"

definition failing_metric :: "string \<Rightarrow> 'd \<Rightarrow> nat \<Rightarrow> nat \<times> (exn + pyfloat)" where
  "failing_metric mf d t = (Suc t, Inl (Exception ''metric failed''))"

section \<open>MonitorParameter\<close>

text \<open>
  The constructor takes \<^verbatim>\<open>x\<close>, \<^verbatim>\<open>y\<close> and \<^verbatim>\<open>params\<close> and assigns five attributes.
  \<^verbatim>\<open>current_params\<close> is \<^verbatim>\<open>None\<close> until the first call; the trainer's
  \<^verbatim>\<open>posterior_mean\<close> is a parameter.
\<close>

record ('p, 'v) MonitorParameter =
  params :: "'p option"
  current_params :: "'v option"
  mp_current_epoch :: int
  parameter_values :: "'v list"
  mp_epochs :: "int list"

definition MonitorParameter_init ::
  "'x \<Rightarrow> 'y option \<Rightarrow> 'p option \<Rightarrow> ('p, 'v) MonitorParameter" where
  "MonitorParameter_init x y params_arg =
     \<lparr>params = params_arg, current_params = None, mp_current_epoch = 0,
      parameter_values = [], mp_epochs = []\<rparr>"

definition MonitorParameter_on_epoch_end ::
  "('p option \<Rightarrow> 't \<Rightarrow> 't \<times> (exn + 'v)) \<Rightarrow> ('p, 'v) MonitorParameter \<times> 't
     \<Rightarrow> (('p, 'v) MonitorParameter \<times> 't) \<times> exn option" where
  "MonitorParameter_on_epoch_end posterior_mean st =
     (case st of (self, model) \<Rightarrow>
        (case posterior_mean (params self) model of
           (model1, Inl x) \<Rightarrow> ((self, model1), Some x)
         | (model1, Inr v) \<Rightarrow>
             (let self1 = self\<lparr>current_params := Some v\<rparr>;
                  self2 = self1\<lparr>mp_current_epoch := mp_current_epoch self1 + 1\<rparr>;
                  self3 = self2\<lparr>parameter_values :=
                                   parameter_values self2 @ [the (current_params self2)]\<rparr>;
                  self4 = self3\<lparr>mp_epochs := mp_epochs self3 @ [mp_current_epoch self3]\<rparr>
              in ((self4, model1), None))))"

text \<open>
  The values that \<open>n\<close> successive calls of a trainer method return, from the trainer
  state \<open>t\<close> on, up to the first call that raises.
\<close>

fun returned :: "('t \<Rightarrow> 't \<times> (exn + 'v)) \<Rightarrow> nat \<Rightarrow> 't \<Rightarrow> 'v list" where
  "returned method 0 t = []"
| "returned method (Suc n) t =
     (case method t of
        (t', Inr v) \<Rightarrow> v # returned method n t'
      | (t', Inl x) \<Rightarrow> [])"

text \<open>A trainer whose posterior mean of the one parameter is the number of calls so far.\<close>

definition drifting_mean ::
  "string list option \<Rightarrow> int \<Rightarrow> int \<times> (exn + (string \<times> int) list)" where
  "drifting_mean ps t = (t + 1, Inr [(''weight'', t)])"

section \<open>The stop signals of a whole run, in the words of the specification\<close>

text \<open>
  The next five definitions are not taken from the source. They say, over the list of the
  values the accessor has returned, what the specification calls the best value seen so
  far, a non-improving call, the count of consecutive non-improving calls, and the calls
  on which stopping is due; the source is compared with them below.
\<close>

text \<open>The best value seen in \<open>vs\<close>: the first value below all earlier ones, from infinity.\<close>

definition best_seen :: "pyfloat list \<Rightarrow> pyfloat" where
  "best_seen vs = foldl (\<lambda>b v. if float_lt v b then v else b) PosInf vs"

text \<open>Call \<open>k\<close> (counted from 0) is non-improving: its value is not below the best before it.\<close>

definition non_improving :: "pyfloat list \<Rightarrow> nat \<Rightarrow> bool" where
  "non_improving vs k = (\<not> float_lt (vs ! k) (best_seen (take k vs)))"

text \<open>The number of non-improving calls at the end of \<open>vs\<close>, back to the last improvement.\<close>

definition streak :: "pyfloat list \<Rightarrow> nat" where
  "streak vs = length (takeWhile (non_improving vs) (rev [0..<length vs]))"

text \<open>Stopping is due on call \<open>k\<close>: it is non-improving and the count with it exceeds \<open>p\<close>.\<close>

definition signalled :: "int \<Rightarrow> pyfloat list \<Rightarrow> nat \<Rightarrow> bool" where
  "signalled p vs k = (non_improving vs k \<and> p < int (streak (take (Suc k) vs)))"

definition signals :: "int \<Rightarrow> pyfloat list \<Rightarrow> nat" where
  "signals p vs = length (filter (signalled p vs) [0..<length vs])"

section \<open>Sequences of calls\<close>

lemma calls_snoc:
  "calls step (es @ [e]) s =
     (case calls step es s of (s', None) \<Rightarrow> step e s' | (s', Some x) \<Rightarrow> (s', Some x))"
  by (induction es arbitrary: s) (auto split: prod.splits option.splits)

section \<open>EarlyStopping: one call\<close>

lemma float_lt_irrefl: "\<not> float_lt v v"
  by (cases v) simp_all

lemma EarlyStopping_step:
  assumes "es_metric_fn self w = Inr v"
  shows "EarlyStopping_on_epoch_end stop_training w (self, model) =
     (if float_lt v (best self) then ((self\<lparr>best := v, count := 0\<rparr>, model), None)
      else if patience self < count self + 1
      then ((self\<lparr>count := count self + 1\<rparr>, fst (stop_training model)),
            snd (stop_training model))
      else ((self\<lparr>count := count self + 1\<rparr>, model), None))"
  using assms by (simp add: EarlyStopping_on_epoch_end_def Let_def split: prod.splits)

section \<open>EarlyStopping: a run from the construction\<close>

lemma best_seen_snoc:
  "best_seen (vs @ [v]) = (if float_lt v (best_seen vs) then v else best_seen vs)"
  by (simp add: best_seen_def)

lemma non_improving_append:
  "k < length vs \<Longrightarrow> non_improving (vs @ us) k = non_improving vs k"
  by (simp add: non_improving_def nth_append)

lemma non_improving_last:
  "non_improving (vs @ [v]) (length vs) = (\<not> float_lt v (best_seen vs))"
  by (simp add: non_improving_def)

lemma streak_snoc:
  "streak (vs @ [v]) = (if float_lt v (best_seen vs) then 0 else Suc (streak vs))"
proof -
  have "takeWhile (non_improving (vs @ [v])) (rev [0..<length vs])
      = takeWhile (non_improving vs) (rev [0..<length vs])"
    by (rule takeWhile_cong) (simp_all add: non_improving_append)
  then show ?thesis
    by (simp add: streak_def non_improving_last)
qed

lemma signalled_append:
  "k < length vs \<Longrightarrow> signalled p (vs @ us) k = signalled p vs k"
  by (simp add: signalled_def non_improving_append)

lemma signalled_last:
  "signalled p (vs @ [v]) (length vs) =
     (\<not> float_lt v (best_seen vs) \<and> p < int (streak vs) + 1)"
  by (auto simp add: signalled_def non_improving_last streak_snoc)

lemma signals_snoc:
  "signals p (vs @ [v]) = signals p vs + (if signalled p (vs @ [v]) (length vs) then 1 else 0)"
proof -
  have "filter (signalled p (vs @ [v])) [0..<length vs] = filter (signalled p vs) [0..<length vs]"
    by (rule filter_cong) (simp_all add: signalled_append)
  then show ?thesis by (simp add: signals_def)
qed

lemma EarlyStopping_calls_closed_form:
  "calls (EarlyStopping_on_epoch_end count_stops) vs
      (\<lparr>es_metric_fn = read_value, patience = p, best = PosInf, count = 0\<rparr>, 0) =
   ((\<lparr>es_metric_fn = read_value, patience = p, best = best_seen vs,
      count = int (streak vs)\<rparr>, signals p vs), None)"
proof (induction vs rule: rev_induct)
  case Nil
  show ?case by (simp add: best_seen_def streak_def signals_def)
next
  case (snoc v vs)
  let ?self = "\<lparr>es_metric_fn = read_value, patience = p, best = best_seen vs,
      count = int (streak vs)\<rparr>"
  have acc: "es_metric_fn ?self v = Inr v"
    by (simp add: read_value_def)
  have "calls (EarlyStopping_on_epoch_end count_stops) (vs @ [v])
      (\<lparr>es_metric_fn = read_value, patience = p, best = PosInf, count = 0\<rparr>, 0) =
      EarlyStopping_on_epoch_end count_stops v (?self, signals p vs)"
    by (simp only: calls_snoc snoc.IH prod.case option.case)
  also have "\<dots> = ((\<lparr>es_metric_fn = read_value, patience = p, best = best_seen (vs @ [v]),
      count = int (streak (vs @ [v]))\<rparr>, signals p (vs @ [v])), None)"
    by (simp add: EarlyStopping_step [OF acc] count_stops_def best_seen_snoc streak_snoc
        signals_snoc signalled_last)
  finally show ?case .
qed

lemma EarlyStopping_session_closed_form:
  assumes "0 \<le> p"
  shows "EarlyStopping_session count_stops (Callable read_value) (VInt p) vs 0 =
     Inr ((\<lparr>es_metric_fn = read_value, patience = p, best = best_seen vs,
             count = int (streak vs)\<rparr>, signals p vs), None)"
  using assms
  by (simp add: EarlyStopping_session_def EarlyStopping_init_def
      EarlyStopping_calls_closed_form)

lemmas EarlyStopping_eval =
  EarlyStopping_session_def EarlyStopping_init_def EarlyStopping_on_epoch_end_def
  count_stops_def read_value_def Let_def

text \<open>
  C1, as the code has it. One call of \<^verbatim>\<open>on_epoch_end\<close> whose accessor returns \<open>v\<close>
  calls the trainer's \<^verbatim>\<open>stop_training\<close> exactly when \<open>v\<close> is not strictly below
  \<open>best\<close> and the incremented count exceeds \<open>patience\<close>; otherwise the trainer is left
  as it was. Over a whole run from the construction, on a trainer that counts the signals,
  \<open>best\<close> is the best value seen, \<open>count\<close> the number of consecutive non-improving
  calls, and the number of signals the number of calls on which stopping was due. With
  patience 0 and the values 5.0, 5.0 the first call only sets \<open>best\<close> and the second
  signals. With patience 1 and the values 5.0, 4.0, 4.0 the second call is an improvement
  (count 0), the third leaves the count at 1 and nothing is signalled; a fourth value 4.0
  brings the count to 2 and the signal.
\<close>

theorem C1_stop_signalled_when_count_exceeds_patience:
  "(es_metric_fn self w = Inr v \<longrightarrow>
      EarlyStopping_on_epoch_end stop_training w (self, model) =
        (if \<not> float_lt v (best self) \<and> patience self < count self + 1
         then ((self\<lparr>count := count self + 1\<rparr>, fst (stop_training model)),
               snd (stop_training model))
         else if float_lt v (best self)
         then ((self\<lparr>best := v, count := 0\<rparr>, model), None)
         else ((self\<lparr>count := count self + 1\<rparr>, model), None)))
   \<and> (0 \<le> p \<longrightarrow>
      EarlyStopping_session count_stops (Callable read_value) (VInt p) vs 0 =
        Inr ((\<lparr>es_metric_fn = read_value, patience = p, best = best_seen vs,
                count = int (streak vs)\<rparr>, signals p vs), None))
   \<and> EarlyStopping_session count_stops (Callable read_value) (VInt 0) [Finite 5] 0 =
        Inr ((\<lparr>es_metric_fn = read_value, patience = 0, best = Finite 5, count = 0\<rparr>, 0), None)
   \<and> EarlyStopping_session count_stops (Callable read_value) (VInt 0) [Finite 5, Finite 5] 0 =
        Inr ((\<lparr>es_metric_fn = read_value, patience = 0, best = Finite 5, count = 1\<rparr>, 1), None)
   \<and> EarlyStopping_session count_stops (Callable read_value) (VInt 1) [Finite 5, Finite 4] 0 =
        Inr ((\<lparr>es_metric_fn = read_value, patience = 1, best = Finite 4, count = 0\<rparr>, 0), None)
   \<and> EarlyStopping_session count_stops (Callable read_value) (VInt 1)
        [Finite 5, Finite 4, Finite 4] 0 =
        Inr ((\<lparr>es_metric_fn = read_value, patience = 1, best = Finite 4, count = 1\<rparr>, 0), None)
   \<and> EarlyStopping_session count_stops (Callable read_value) (VInt 1)
        [Finite 5, Finite 4, Finite 4, Finite 4] 0 =
        Inr ((\<lparr>es_metric_fn = read_value, patience = 1, best = Finite 4, count = 2\<rparr>, 1), None)"
proof -
  have step: "es_metric_fn self w = Inr v \<longrightarrow>
      EarlyStopping_on_epoch_end stop_training w (self, model) =
        (if \<not> float_lt v (best self) \<and> patience self < count self + 1
         then ((self\<lparr>count := count self + 1\<rparr>, fst (stop_training model)),
               snd (stop_training model))
         else if float_lt v (best self)
         then ((self\<lparr>best := v, count := 0\<rparr>, model), None)
         else ((self\<lparr>count := count self + 1\<rparr>, model), None))"
    by (simp add: EarlyStopping_step)
  have run: "0 \<le> p \<longrightarrow>
      EarlyStopping_session count_stops (Callable read_value) (VInt p) vs 0 =
        Inr ((\<lparr>es_metric_fn = read_value, patience = p, best = best_seen vs,
                count = int (streak vs)\<rparr>, signals p vs), None)"
    by (simp add: EarlyStopping_session_closed_form)
  have a: "EarlyStopping_session count_stops (Callable read_value) (VInt 0) [Finite 5] 0 =
        Inr ((\<lparr>es_metric_fn = read_value, patience = 0, best = Finite 5, count = 0\<rparr>, 0), None)"
    by (simp add: EarlyStopping_eval)
  have b: "EarlyStopping_session count_stops (Callable read_value) (VInt 0)
        [Finite 5, Finite 5] 0 =
        Inr ((\<lparr>es_metric_fn = read_value, patience = 0, best = Finite 5, count = 1\<rparr>, 1), None)"
    by (simp add: EarlyStopping_eval)
  have c: "EarlyStopping_session count_stops (Callable read_value) (VInt 1)
        [Finite 5, Finite 4] 0 =
        Inr ((\<lparr>es_metric_fn = read_value, patience = 1, best = Finite 4, count = 0\<rparr>, 0), None)"
    by (simp add: EarlyStopping_eval)
  have d: "EarlyStopping_session count_stops (Callable read_value) (VInt 1)
        [Finite 5, Finite 4, Finite 4] 0 =
        Inr ((\<lparr>es_metric_fn = read_value, patience = 1, best = Finite 4, count = 1\<rparr>, 0), None)"
    by (simp add: EarlyStopping_eval)
  have e: "EarlyStopping_session count_stops (Callable read_value) (VInt 1)
        [Finite 5, Finite 4, Finite 4, Finite 4] 0 =
        Inr ((\<lparr>es_metric_fn = read_value, patience = 1, best = Finite 4, count = 2\<rparr>, 1), None)"
    by (simp add: EarlyStopping_eval)
  from step run a b c d e show ?thesis by (intro conjI)
qed

text \<open>An instance of C1: a tie at patience 0, and three equal values at patience 1.\<close>

theorem C1_witness:
  "es_metric_fn \<lparr>es_metric_fn = read_value, patience = 0, best = Finite 5, count = 0\<rparr> (Finite 5)
      = Inr (Finite 5)
   \<and> EarlyStopping_on_epoch_end count_stops (Finite 5)
        (\<lparr>es_metric_fn = read_value, patience = 0, best = Finite 5, count = 0\<rparr>, 0) =
      ((\<lparr>es_metric_fn = read_value, patience = 0, best = Finite 5, count = 1\<rparr>, 1), None)
   \<and> (0::int) \<le> 1
   \<and> EarlyStopping_session count_stops (Callable read_value) (VInt 1)
        [Finite 5, Finite 5, Finite 5] 0 =
      Inr ((\<lparr>es_metric_fn = read_value, patience = 1, best = Finite 5, count = 2\<rparr>, 1), None)
   \<and> best_seen [Finite 5, Finite 5, Finite 5] = Finite 5
   \<and> streak [Finite 5, Finite 5, Finite 5] = 2
   \<and> signals 1 [Finite 5, Finite 5, Finite 5] = 1"
proof -
  let ?S = "\<lparr>es_metric_fn = read_value, patience = 0, best = Finite 5, count = 0\<rparr>"
  let ?vs = "[Finite 5, Finite 5, Finite 5]"
  have acc: "es_metric_fn ?S (Finite 5) = Inr (Finite 5)"
    by (simp add: read_value_def)
  have ev: "EarlyStopping_session count_stops (Callable read_value) (VInt 1) ?vs 0 =
      Inr ((\<lparr>es_metric_fn = read_value, patience = 1, best = Finite 5, count = 2\<rparr>, 1), None)"
    by (simp add: EarlyStopping_eval)
  show ?thesis
    using acc ev
      C1_stop_signalled_when_count_exceeds_patience
        [of ?S "Finite 5" "Finite 5" count_stops 0 1 ?vs]
    by (simp add: count_stops_def)
qed

text \<open>
  With patience 1 and the values 5.0, 4.0, 4.0 the run ends with count 1 and without a
  stop signal, not with count 2 and a signal on the third call.
\<close>

theorem C1_counterexample:
  "EarlyStopping_session count_stops (Callable read_value) (VInt 1)
     [Finite 5, Finite 4, Finite 4] 0 =
     Inr ((\<lparr>es_metric_fn = read_value, patience = 1, best = Finite 4, count = 1\<rparr>, 0), None)
   \<and> EarlyStopping_session count_stops (Callable read_value) (VInt 1)
     [Finite 5, Finite 4, Finite 4] 0 \<noteq>
     Inr ((\<lparr>es_metric_fn = read_value, patience = 1, best = Finite 4, count = 2\<rparr>, 1), None)"
  by (simp add: EarlyStopping_eval)

section \<open>EarlyStopping: ties and calls after the signal\<close>

text \<open>
  C3. Improvement is strict. From every state of the callback, a call of
  \<^verbatim>\<open>on_epoch_end\<close> whose accessor returns exactly the current \<open>best\<close> leaves
  \<open>best\<close> as it is and increments \<open>count\<close> instead of resetting it, whatever the
  trainer does with a stop signal: the value counts as non-improving, and a count that was
  not negative is not 0 afterwards.
\<close>

theorem C3_equal_value_is_non_improving:
  assumes "es_metric_fn self w = Inr (best self)"
    and "EarlyStopping_on_epoch_end stop_training w (self, model) = ((self', model'), r)"
  shows "best self' = best self \<and> count self' = count self + 1
     \<and> (0 \<le> count self \<longrightarrow> count self' \<noteq> 0)"
  using assms(2)
  by (auto simp add: EarlyStopping_step [OF assms(1)] float_lt_irrefl split: if_splits)

text \<open>An instance of C3: a second 5.0 at patience 3.\<close>

theorem C3_witness:
  "es_metric_fn \<lparr>es_metric_fn = read_value, patience = 3, best = Finite 5, count = 0\<rparr> (Finite 5)
      = Inr (best \<lparr>es_metric_fn = read_value, patience = 3, best = Finite 5, count = 0\<rparr>)
   \<and> EarlyStopping_on_epoch_end count_stops (Finite 5)
        (\<lparr>es_metric_fn = read_value, patience = 3, best = Finite 5, count = 0\<rparr>, 0) =
      ((\<lparr>es_metric_fn = read_value, patience = 3, best = Finite 5, count = 1\<rparr>, 0), None)
   \<and> best \<lparr>es_metric_fn = read_value, patience = 3, best = Finite 5, count = 1\<rparr> = Finite 5
   \<and> count \<lparr>es_metric_fn = read_value, patience = 3, best = Finite 5, count = 1\<rparr> = 1"
proof -
  let ?S = "\<lparr>es_metric_fn = read_value, patience = 3, best = Finite 5, count = 0\<rparr>"
  let ?S' = "\<lparr>es_metric_fn = read_value, patience = 3, best = Finite 5, count = 1\<rparr>"
  have acc: "es_metric_fn ?S (Finite 5) = Inr (best ?S)"
    by (simp add: read_value_def)
  have stp: "EarlyStopping_on_epoch_end count_stops (Finite 5) (?S, 0) = ((?S', 0), None)"
    by (simp add: EarlyStopping_on_epoch_end_def read_value_def Let_def)
  show ?thesis
    using acc stp C3_equal_value_is_non_improving [OF acc stp]
    by simp
qed

text \<open>
  C10. Having signalled is not a state of its own. From a state whose count exceeds the
  patience, a call whose value is strictly below \<open>best\<close> sets \<open>best\<close> to it,
  resets \<open>count\<close> to 0 and leaves the trainer untouched (no stop signal on that call);
  a call whose value is not below \<open>best\<close> increments the count and calls
  \<^verbatim>\<open>stop_training\<close> again.
\<close>

theorem C10_stopping_is_not_sticky:
  assumes "patience self < count self"
    and "es_metric_fn self w = Inr v"
  shows "(float_lt v (best self) \<longrightarrow>
            EarlyStopping_on_epoch_end stop_training w (self, model) =
              ((self\<lparr>best := v, count := 0\<rparr>, model), None))
       \<and> (\<not> float_lt v (best self) \<longrightarrow>
            EarlyStopping_on_epoch_end stop_training w (self, model) =
              ((self\<lparr>count := count self + 1\<rparr>, fst (stop_training model)),
               snd (stop_training model)))"
  using assms(1) by (simp add: EarlyStopping_step [OF assms(2)])

text \<open>
  An instance of C10, after one signal at patience 0 and best 5.0: the value 4.0 resets
  the count and sends no signal, the value 5.0 sends the second signal.
\<close>

theorem C10_witness:
  "patience \<lparr>es_metric_fn = read_value, patience = 0, best = Finite 5, count = 1\<rparr>
      < count \<lparr>es_metric_fn = read_value, patience = 0, best = Finite 5, count = 1\<rparr>
   \<and> es_metric_fn \<lparr>es_metric_fn = read_value, patience = 0, best = Finite 5, count = 1\<rparr>
        (Finite 4) = Inr (Finite 4)
   \<and> float_lt (Finite 4) (Finite 5)
   \<and> EarlyStopping_on_epoch_end count_stops (Finite 4)
        (\<lparr>es_metric_fn = read_value, patience = 0, best = Finite 5, count = 1\<rparr>, 1) =
      ((\<lparr>es_metric_fn = read_value, patience = 0, best = Finite 4, count = 0\<rparr>, 1), None)
   \<and> es_metric_fn \<lparr>es_metric_fn = read_value, patience = 0, best = Finite 5, count = 1\<rparr>
        (Finite 5) = Inr (Finite 5)
   \<and> \<not> float_lt (Finite 5) (Finite 5)
   \<and> EarlyStopping_on_epoch_end count_stops (Finite 5)
        (\<lparr>es_metric_fn = read_value, patience = 0, best = Finite 5, count = 1\<rparr>, 1) =
      ((\<lparr>es_metric_fn = read_value, patience = 0, best = Finite 5, count = 2\<rparr>, 2), None)"
proof -
  let ?S = "\<lparr>es_metric_fn = read_value, patience = 0, best = Finite 5, count = 1\<rparr>"
  have ex: "patience ?S < count ?S" by simp
  have a4: "es_metric_fn ?S (Finite 4) = Inr (Finite 4)" by (simp add: read_value_def)
  have a5: "es_metric_fn ?S (Finite 5) = Inr (Finite 5)" by (simp add: read_value_def)
  show ?thesis
    using ex a4 a5
      C10_stopping_is_not_sticky [OF ex a4, of count_stops 1]
      C10_stopping_is_not_sticky [OF ex a5, of count_stops 1]
    by (simp add: count_stops_def)
qed

section \<open>The schedulers: runs that complete\<close>

lemma repeat_call_Suc_end:
  "repeat_call (Suc n) step s =
     (case repeat_call n step s of (s', None) \<Rightarrow> step s' | (s', Some x) \<Rightarrow> (s', Some x))"
proof (induction n arbitrary: s)
  case 0
  show ?case by (simp split: prod.splits option.splits)
next
  case (Suc n)
  obtain s1 r where st: "step s = (s1, r)" by (cases "step s")
  show ?case
  proof (cases r)
    case None
    have a: "repeat_call (Suc (Suc n)) step s = repeat_call (Suc n) step s1"
      using st None by simp
    have b: "repeat_call (Suc n) step s = repeat_call n step s1"
      using st None by simp
    show ?thesis unfolding a b by (rule Suc.IH)
  next
    case (Some x)
    then show ?thesis using st by simp
  qed
qed

lemma upto_int_Suc: "[1..1 + int e] = [1..int e] @ [1 + int e]"
proof -
  have "[1..1 + int e] = [1..1 + int e - 1] @ [1 + int e]"
    by (rule upto_rec2) simp
  then show ?thesis by simp
qed

lemma LearningRateScheduler_step_ok:
  assumes "lr_fn self (lr_current_epoch self + 1) = Inr r"
    and "snd (set_learning_rate r model) = None"
  shows "LearningRateScheduler_on_epoch_end set_learning_rate (self, model) =
     ((self\<lparr>lr_current_epoch := lr_current_epoch self + 1, current_lr := r,
             lr_epochs := lr_epochs self @ [lr_current_epoch self + 1],
             learning_rate := learning_rate self @ [r]\<rparr>,
       fst (set_learning_rate r model)), None)"
  using assms
  by (cases "set_learning_rate r model")
     (simp add: LearningRateScheduler_on_epoch_end_def Let_def)

lemma LearningRateScheduler_run:
  assumes ret: "\<forall>i. 1 \<le> i \<and> i \<le> int e \<longrightarrow> fn i = Inr (f i)"
    and ok: "\<forall>v m. snd (set_learning_rate v m) = None"
  shows "repeat_call e (LearningRateScheduler_on_epoch_end set_learning_rate)
       (\<lparr>lr_fn = fn, lr_current_epoch = 0, current_lr = VInt 0, lr_epochs = [],
         learning_rate = []\<rparr>, model) =
     ((\<lparr>lr_fn = fn, lr_current_epoch = int e,
        current_lr = (if e = 0 then VInt 0 else f (int e)),
        lr_epochs = [1..int e], learning_rate = map f [1..int e]\<rparr>,
       foldl (\<lambda>m i. fst (set_learning_rate (f i) m)) model [1..int e]), None)"
  using ret
proof (induction e)
  case 0
  show ?case by simp
next
  case (Suc e)
  let ?self = "\<lparr>lr_fn = fn, lr_current_epoch = int e,
        current_lr = (if e = 0 then VInt 0 else f (int e)),
        lr_epochs = [1..int e], learning_rate = map f [1..int e]\<rparr>"
  let ?model = "foldl (\<lambda>m i. fst (set_learning_rate (f i) m)) model [1..int e]"
  from Suc.prems have "\<forall>i. 1 \<le> i \<and> i \<le> int e \<longrightarrow> fn i = Inr (f i)" by simp
  from Suc.IH [OF this]
  have before: "repeat_call e (LearningRateScheduler_on_epoch_end set_learning_rate)
       (\<lparr>lr_fn = fn, lr_current_epoch = 0, current_lr = VInt 0, lr_epochs = [],
         learning_rate = []\<rparr>, model) = ((?self, ?model), None)" .
  from Suc.prems have "fn (int e + 1) = Inr (f (int e + 1))" by simp
  then have val: "lr_fn ?self (lr_current_epoch ?self + 1) = Inr (f (int e + 1))" by simp
  from ok have mut: "snd (set_learning_rate (f (int e + 1)) ?model) = None" by simp
  show ?case
    by (simp only: repeat_call_Suc_end before prod.case option.case
          LearningRateScheduler_step_ok [where set_learning_rate = set_learning_rate, OF val mut])
       (simp add: upto_int_Suc add.commute [of "int e" 1])
qed

lemma KLWeightScheduler_step_ok:
  assumes "kl_fn self (kl_current_epoch self + 1) = Inr r"
    and "snd (set_kl_weight r model) = None"
  shows "KLWeightScheduler_on_epoch_end set_kl_weight (self, model) =
     ((self\<lparr>kl_current_epoch := kl_current_epoch self + 1, current_w := r,
             kl_epochs := kl_epochs self @ [kl_current_epoch self + 1],
             kl_weights := kl_weights self @ [r]\<rparr>,
       fst (set_kl_weight r model)), None)"
  using assms
  by (cases "set_kl_weight r model")
     (simp add: KLWeightScheduler_on_epoch_end_def Let_def)

lemma KLWeightScheduler_run:
  assumes ret: "\<forall>i. 1 \<le> i \<and> i \<le> int e \<longrightarrow> fn i = Inr (f i)"
    and ok: "\<forall>v m. snd (set_kl_weight v m) = None"
  shows "repeat_call e (KLWeightScheduler_on_epoch_end set_kl_weight)
       (\<lparr>kl_fn = fn, kl_current_epoch = 0, current_w = VInt 0, kl_epochs = [],
         kl_weights = []\<rparr>, model) =
     ((\<lparr>kl_fn = fn, kl_current_epoch = int e,
        current_w = (if e = 0 then VInt 0 else f (int e)),
        kl_epochs = [1..int e], kl_weights = map f [1..int e]\<rparr>,
       foldl (\<lambda>m i. fst (set_kl_weight (f i) m)) model [1..int e]), None)"
  using ret
proof (induction e)
  case 0
  show ?case by simp
next
  case (Suc e)
  let ?self = "\<lparr>kl_fn = fn, kl_current_epoch = int e,
        current_w = (if e = 0 then VInt 0 else f (int e)),
        kl_epochs = [1..int e], kl_weights = map f [1..int e]\<rparr>"
  let ?model = "foldl (\<lambda>m i. fst (set_kl_weight (f i) m)) model [1..int e]"
  from Suc.prems have "\<forall>i. 1 \<le> i \<and> i \<le> int e \<longrightarrow> fn i = Inr (f i)" by simp
  from Suc.IH [OF this]
  have before: "repeat_call e (KLWeightScheduler_on_epoch_end set_kl_weight)
       (\<lparr>kl_fn = fn, kl_current_epoch = 0, current_w = VInt 0, kl_epochs = [],
         kl_weights = []\<rparr>, model) = ((?self, ?model), None)" .
  from Suc.prems have "fn (int e + 1) = Inr (f (int e + 1))" by simp
  then have val: "kl_fn ?self (kl_current_epoch ?self + 1) = Inr (f (int e + 1))" by simp
  from ok have mut: "snd (set_kl_weight (f (int e + 1)) ?model) = None" by simp
  show ?case
    by (simp only: repeat_call_Suc_end before prod.case option.case
          KLWeightScheduler_step_ok [where set_kl_weight = set_kl_weight, OF val mut])
       (simp add: upto_int_Suc add.commute [of "int e" 1])
qed

lemma LearningRateScheduler_init_fields:
  assumes "LearningRateScheduler_init fn = Inr self"
  shows "lr_current_epoch self = 0 \<and> lr_epochs self = [] \<and> learning_rate self = []
     \<and> current_lr self = VInt 0 \<and> fn = Callable (lr_fn self)"
  using assms
  by (auto simp add: LearningRateScheduler_init_def
      split: pyarg.splits sum.splits if_splits)

lemma KLWeightScheduler_init_fields:
  assumes "KLWeightScheduler_init fn = Inr self"
  shows "kl_current_epoch self = 0 \<and> kl_epochs self = [] \<and> kl_weights self = []
     \<and> current_w self = VInt 0 \<and> fn = Callable (kl_fn self)"
  using assms
  by (auto simp add: KLWeightScheduler_init_def
      split: pyarg.splits sum.splits if_splits)

lemma LearningRateScheduler_session:
  assumes init: "LearningRateScheduler_init (Callable fn) = Inr self0"
    and ret: "\<forall>i. 1 \<le> i \<and> i \<le> int e \<longrightarrow> fn i = Inr (f i)"
    and ok: "\<forall>v m. snd (set_learning_rate v m) = None"
  shows "repeat_call e (LearningRateScheduler_on_epoch_end set_learning_rate) (self0, model) =
     ((\<lparr>lr_fn = fn, lr_current_epoch = int e,
        current_lr = (if e = 0 then VInt 0 else f (int e)),
        lr_epochs = [1..int e], learning_rate = map f [1..int e]\<rparr>,
       foldl (\<lambda>m i. fst (set_learning_rate (f i) m)) model [1..int e]), None)"
proof -
  from LearningRateScheduler_init_fields [OF init]
  have "self0 = \<lparr>lr_fn = fn, lr_current_epoch = 0, current_lr = VInt 0, lr_epochs = [],
         learning_rate = []\<rparr>"
    by simp
  with LearningRateScheduler_run [OF ret ok] show ?thesis by simp
qed

lemma KLWeightScheduler_session:
  assumes init: "KLWeightScheduler_init (Callable fn) = Inr self0"
    and ret: "\<forall>i. 1 \<le> i \<and> i \<le> int e \<longrightarrow> fn i = Inr (f i)"
    and ok: "\<forall>v m. snd (set_kl_weight v m) = None"
  shows "repeat_call e (KLWeightScheduler_on_epoch_end set_kl_weight) (self0, model) =
     ((\<lparr>kl_fn = fn, kl_current_epoch = int e,
        current_w = (if e = 0 then VInt 0 else f (int e)),
        kl_epochs = [1..int e], kl_weights = map f [1..int e]\<rparr>,
       foldl (\<lambda>m i. fst (set_kl_weight (f i) m)) model [1..int e]), None)"
proof -
  from KLWeightScheduler_init_fields [OF init]
  have "self0 = \<lparr>kl_fn = fn, kl_current_epoch = 0, current_w = VInt 0, kl_epochs = [],
         kl_weights = []\<rparr>"
    by simp
  with KLWeightScheduler_run [OF ret ok] show ?thesis by simp
qed

text \<open>
  C2. Let the schedule return \<open>f i\<close> at every epoch \<open>i\<close> from 1 to \<open>e\<close> and let the
  trainer's mutator not raise. Then \<open>e\<close> calls of \<^verbatim>\<open>on_epoch_end\<close> on a
  \<^verbatim>\<open>LearningRateScheduler\<close> constructed with the schedule all complete, and afterwards
  \<open>epochs\<close> is \<open>[1..e]\<close>, \<open>learning_rate\<close> is \<open>[f 1, \<dots>, f e]\<close>, and the trainer
  is in the state that the calls \<^verbatim>\<open>set_learning_rate(f 1)\<close>, \<dots>,
  \<^verbatim>\<open>set_learning_rate(f e)\<close>, made in this order, leave it in. The same holds for a
  \<^verbatim>\<open>KLWeightScheduler\<close>, with \<open>kl_weights\<close> and \<^verbatim>\<open>set_kl_weight\<close>.
\<close>

theorem C2_schedulers_record_and_forward_the_schedule:
  assumes ret: "\<forall>i. 1 \<le> i \<and> i \<le> int e \<longrightarrow> fn i = Inr (f i)"
    and lr_ok: "\<forall>v m. snd (set_learning_rate v m) = None"
    and kl_ok: "\<forall>v m. snd (set_kl_weight v m) = None"
  shows "(LearningRateScheduler_init (Callable fn) = Inr lrs \<longrightarrow>
      repeat_call e (LearningRateScheduler_on_epoch_end set_learning_rate) (lrs, model) =
        ((\<lparr>lr_fn = fn, lr_current_epoch = int e,
           current_lr = (if e = 0 then VInt 0 else f (int e)),
           lr_epochs = [1..int e], learning_rate = map f [1..int e]\<rparr>,
          foldl (\<lambda>m i. fst (set_learning_rate (f i) m)) model [1..int e]), None))
    \<and> (KLWeightScheduler_init (Callable fn) = Inr kls \<longrightarrow>
      repeat_call e (KLWeightScheduler_on_epoch_end set_kl_weight) (kls, model') =
        ((\<lparr>kl_fn = fn, kl_current_epoch = int e,
           current_w = (if e = 0 then VInt 0 else f (int e)),
           kl_epochs = [1..int e], kl_weights = map f [1..int e]\<rparr>,
          foldl (\<lambda>m i. fst (set_kl_weight (f i) m)) model' [1..int e]), None))"
  using LearningRateScheduler_session [OF _ ret lr_ok, of lrs model]
    KLWeightScheduler_session [OF _ ret kl_ok, of kls model']
  by blast

text \<open>
  An instance of C2: three epochs of the schedule \<open>1 / epoch\<close> on a trainer that records
  the values it is given.
\<close>

theorem C2_witness:
  "LearningRateScheduler_init (Callable decay) =
     Inr \<lparr>lr_fn = decay, lr_current_epoch = 0, current_lr = VInt 0, lr_epochs = [],
          learning_rate = []\<rparr>
   \<and> repeat_call 3 (LearningRateScheduler_on_epoch_end record_value)
       (\<lparr>lr_fn = decay, lr_current_epoch = 0, current_lr = VInt 0, lr_epochs = [],
         learning_rate = []\<rparr>, []) =
     ((\<lparr>lr_fn = decay, lr_current_epoch = 3, current_lr = VFloat (Finite (1 / 3)),
        lr_epochs = [1, 2, 3],
        learning_rate = [VFloat (Finite 1), VFloat (Finite (1 / 2)), VFloat (Finite (1 / 3))]\<rparr>,
       [VFloat (Finite 1), VFloat (Finite (1 / 2)), VFloat (Finite (1 / 3))]), None)
   \<and> KLWeightScheduler_init (Callable decay) =
     Inr \<lparr>kl_fn = decay, kl_current_epoch = 0, current_w = VInt 0, kl_epochs = [],
          kl_weights = []\<rparr>
   \<and> repeat_call 3 (KLWeightScheduler_on_epoch_end record_value)
       (\<lparr>kl_fn = decay, kl_current_epoch = 0, current_w = VInt 0, kl_epochs = [],
         kl_weights = []\<rparr>, []) =
     ((\<lparr>kl_fn = decay, kl_current_epoch = 3, current_w = VFloat (Finite (1 / 3)),
        kl_epochs = [1, 2, 3],
        kl_weights = [VFloat (Finite 1), VFloat (Finite (1 / 2)), VFloat (Finite (1 / 3))]\<rparr>,
       [VFloat (Finite 1), VFloat (Finite (1 / 2)), VFloat (Finite (1 / 3))]), None)"
proof -
  let ?L = "\<lparr>lr_fn = decay, lr_current_epoch = 0, current_lr = VInt 0, lr_epochs = [],
          learning_rate = []\<rparr>"
  let ?K = "\<lparr>kl_fn = decay, kl_current_epoch = 0, current_w = VInt 0, kl_epochs = [],
          kl_weights = []\<rparr>"
  have ret: "\<forall>i. 1 \<le> i \<and> i \<le> int 3 \<longrightarrow> decay i = Inr (decay_value i)"
    by (simp add: decay_def)
  have ok: "\<forall>v m. snd (record_value v m) = None"
    by (simp add: record_value_def)
  have li: "LearningRateScheduler_init (Callable decay) = Inr ?L"
    by (simp add: LearningRateScheduler_init_def decay_def decay_value_def)
  have ki: "KLWeightScheduler_init (Callable decay) = Inr ?K"
    by (simp add: KLWeightScheduler_init_def decay_def decay_value_def)
  have up: "[1..3] = [1, 2, 3::int]"
    by (simp add: upto_rec1)
  have d1: "decay_value 1 = VFloat (Finite 1)"
    by (simp add: decay_value_def)
  have d2: "decay_value 2 = VFloat (Finite (1 / 2))"
    by (simp add: decay_value_def)
  have d3: "decay_value 3 = VFloat (Finite (1 / 3))"
    by (simp add: decay_value_def)
  have rv: "\<And>v m. fst (record_value v m) = m @ [v]"
    by (simp add: record_value_def)
  show ?thesis
    using li ki
      C2_schedulers_record_and_forward_the_schedule [OF ret ok ok, of ?L "[]" ?K "[]"]
    by (simp add: up d1 d2 d3 rv)
qed

section \<open>The schedulers: a call that raises\<close>

lemma LearningRateScheduler_step_completed:
  assumes "LearningRateScheduler_on_epoch_end set_learning_rate (self, model) =
             ((self', model'), None)"
  shows "lr_current_epoch self' = lr_current_epoch self + 1
     \<and> length (lr_epochs self') = Suc (length (lr_epochs self))
     \<and> length (learning_rate self') = Suc (length (learning_rate self))"
  using assms
  by (auto simp add: LearningRateScheduler_on_epoch_end_def Let_def
      split: sum.splits prod.splits option.splits)

lemma LearningRateScheduler_step_raised:
  assumes "LearningRateScheduler_on_epoch_end set_learning_rate (self, model) =
             ((self', model'), Some x)"
  shows "lr_current_epoch self' = lr_current_epoch self + 1
     \<and> lr_epochs self' = lr_epochs self
     \<and> learning_rate self' = learning_rate self"
  using assms
  by (auto simp add: LearningRateScheduler_on_epoch_end_def Let_def
      split: sum.splits prod.splits option.splits)

lemma LearningRateScheduler_calls_grow:
  "repeat_call e (LearningRateScheduler_on_epoch_end set_learning_rate) (self0, model0) =
     ((self, model), None) \<Longrightarrow>
   lr_current_epoch self = lr_current_epoch self0 + int e
     \<and> length (lr_epochs self) = length (lr_epochs self0) + e
     \<and> length (learning_rate self) = length (learning_rate self0) + e"
proof (induction e arbitrary: self0 model0)
  case 0
  then show ?case by simp
next
  case (Suc e)
  obtain self1 model1 r where
    st: "LearningRateScheduler_on_epoch_end set_learning_rate (self0, model0) =
           ((self1, model1), r)"
    by (cases "LearningRateScheduler_on_epoch_end set_learning_rate (self0, model0)") auto
  with Suc.prems have r: "r = None"
    and rest: "repeat_call e (LearningRateScheduler_on_epoch_end set_learning_rate)
                 (self1, model1) = ((self, model), None)"
    by (auto split: option.splits)
  from st r LearningRateScheduler_step_completed [of set_learning_rate self0 model0 self1 model1]
  have "lr_current_epoch self1 = lr_current_epoch self0 + 1
     \<and> length (lr_epochs self1) = Suc (length (lr_epochs self0))
     \<and> length (learning_rate self1) = Suc (length (learning_rate self0))"
    by simp
  with Suc.IH [OF rest] show ?case by simp
qed

lemma LearningRateScheduler_completed_calls:
  assumes init: "LearningRateScheduler_init fn = Inr self0"
    and run: "repeat_call e (LearningRateScheduler_on_epoch_end set_learning_rate)
                (self0, model0) = ((self, model), None)"
  shows "lr_current_epoch self = int e \<and> length (lr_epochs self) = e
     \<and> length (learning_rate self) = e"
  using LearningRateScheduler_calls_grow [OF run] LearningRateScheduler_init_fields [OF init]
  by simp

lemma KLWeightScheduler_step_completed:
  assumes "KLWeightScheduler_on_epoch_end set_kl_weight (self, model) =
             ((self', model'), None)"
  shows "kl_current_epoch self' = kl_current_epoch self + 1
     \<and> length (kl_epochs self') = Suc (length (kl_epochs self))
     \<and> length (kl_weights self') = Suc (length (kl_weights self))"
  using assms
  by (auto simp add: KLWeightScheduler_on_epoch_end_def Let_def
      split: sum.splits prod.splits option.splits)

lemma KLWeightScheduler_step_raised:
  assumes "KLWeightScheduler_on_epoch_end set_kl_weight (self, model) =
             ((self', model'), Some x)"
  shows "kl_current_epoch self' = kl_current_epoch self + 1
     \<and> kl_epochs self' = kl_epochs self
     \<and> kl_weights self' = kl_weights self"
  using assms
  by (auto simp add: KLWeightScheduler_on_epoch_end_def Let_def
      split: sum.splits prod.splits option.splits)

lemma KLWeightScheduler_calls_grow:
  "repeat_call e (KLWeightScheduler_on_epoch_end set_kl_weight) (self0, model0) =
     ((self, model), None) \<Longrightarrow>
   kl_current_epoch self = kl_current_epoch self0 + int e
     \<and> length (kl_epochs self) = length (kl_epochs self0) + e
     \<and> length (kl_weights self) = length (kl_weights self0) + e"
proof (induction e arbitrary: self0 model0)
  case 0
  then show ?case by simp
next
  case (Suc e)
  obtain self1 model1 r where
    st: "KLWeightScheduler_on_epoch_end set_kl_weight (self0, model0) =
           ((self1, model1), r)"
    by (cases "KLWeightScheduler_on_epoch_end set_kl_weight (self0, model0)") auto
  with Suc.prems have r: "r = None"
    and rest: "repeat_call e (KLWeightScheduler_on_epoch_end set_kl_weight)
                 (self1, model1) = ((self, model), None)"
    by (auto split: option.splits)
  from st r KLWeightScheduler_step_completed [of set_kl_weight self0 model0 self1 model1]
  have "kl_current_epoch self1 = kl_current_epoch self0 + 1
     \<and> length (kl_epochs self1) = Suc (length (kl_epochs self0))
     \<and> length (kl_weights self1) = Suc (length (kl_weights self0))"
    by simp
  with Suc.IH [OF rest] show ?case by simp
qed

lemma KLWeightScheduler_completed_calls:
  assumes init: "KLWeightScheduler_init fn = Inr self0"
    and run: "repeat_call e (KLWeightScheduler_on_epoch_end set_kl_weight)
                (self0, model0) = ((self, model), None)"
  shows "kl_current_epoch self = int e \<and> length (kl_epochs self) = e
     \<and> length (kl_weights self) = e"
  using KLWeightScheduler_calls_grow [OF run] KLWeightScheduler_init_fields [OF init]
  by simp

text \<open>
  C9. A call of a scheduler's \<^verbatim>\<open>on_epoch_end\<close> that raises is not undone. After
  \<open>e\<close> completed calls on a freshly constructed \<^verbatim>\<open>LearningRateScheduler\<close> or
  \<^verbatim>\<open>KLWeightScheduler\<close>, a call left by an exception (of the schedule or of the
  trainer's mutator) leaves \<open>current_epoch\<close> at \<open>e + 1\<close> while \<open>epochs\<close> and the
  list of values still have length \<open>e\<close>: the length of \<open>epochs\<close> is no longer
  \<open>current_epoch\<close>.
\<close>

theorem C9_failed_scheduler_call_leaves_epoch_ahead:
  "(LearningRateScheduler_init fn = Inr lrs0
      \<and> repeat_call e (LearningRateScheduler_on_epoch_end set_learning_rate) (lrs0, m0) =
          ((lrs, m), None)
      \<and> LearningRateScheduler_on_epoch_end set_learning_rate (lrs, m) = ((lrs', m'), Some x)
    \<longrightarrow> lr_current_epoch lrs' = int e + 1 \<and> length (lr_epochs lrs') = e
      \<and> length (learning_rate lrs') = e
      \<and> int (length (lr_epochs lrs')) \<noteq> lr_current_epoch lrs')
   \<and> (KLWeightScheduler_init fn = Inr kls0
      \<and> repeat_call e (KLWeightScheduler_on_epoch_end set_kl_weight) (kls0, n0) =
          ((kls, n), None)
      \<and> KLWeightScheduler_on_epoch_end set_kl_weight (kls, n) = ((kls', n'), Some y)
    \<longrightarrow> kl_current_epoch kls' = int e + 1 \<and> length (kl_epochs kls') = e
      \<and> length (kl_weights kls') = e
      \<and> int (length (kl_epochs kls')) \<noteq> kl_current_epoch kls')"
proof (intro conjI impI)
  assume a: "LearningRateScheduler_init fn = Inr lrs0
      \<and> repeat_call e (LearningRateScheduler_on_epoch_end set_learning_rate) (lrs0, m0) =
          ((lrs, m), None)
      \<and> LearningRateScheduler_on_epoch_end set_learning_rate (lrs, m) = ((lrs', m'), Some x)"
  from a LearningRateScheduler_completed_calls [of fn lrs0 e set_learning_rate m0 lrs m]
  have before: "lr_current_epoch lrs = int e \<and> length (lr_epochs lrs) = e
     \<and> length (learning_rate lrs) = e"
    by blast
  from a LearningRateScheduler_step_raised [of set_learning_rate lrs m lrs' m' x]
  have after: "lr_current_epoch lrs' = lr_current_epoch lrs + 1
     \<and> lr_epochs lrs' = lr_epochs lrs \<and> learning_rate lrs' = learning_rate lrs"
    by blast
  from before after show "lr_current_epoch lrs' = int e + 1" by simp
  from before after show "length (lr_epochs lrs') = e" by simp
  from before after show "length (learning_rate lrs') = e" by simp
  from before after show "int (length (lr_epochs lrs')) \<noteq> lr_current_epoch lrs'" by simp
next
  assume a: "KLWeightScheduler_init fn = Inr kls0
      \<and> repeat_call e (KLWeightScheduler_on_epoch_end set_kl_weight) (kls0, n0) =
          ((kls, n), None)
      \<and> KLWeightScheduler_on_epoch_end set_kl_weight (kls, n) = ((kls', n'), Some y)"
  from a KLWeightScheduler_completed_calls [of fn kls0 e set_kl_weight n0 kls n]
  have before: "kl_current_epoch kls = int e \<and> length (kl_epochs kls) = e
     \<and> length (kl_weights kls) = e"
    by blast
  from a KLWeightScheduler_step_raised [of set_kl_weight kls n kls' n' y]
  have after: "kl_current_epoch kls' = kl_current_epoch kls + 1
     \<and> kl_epochs kls' = kl_epochs kls \<and> kl_weights kls' = kl_weights kls"
    by blast
  from before after show "kl_current_epoch kls' = int e + 1" by simp
  from before after show "length (kl_epochs kls') = e" by simp
  from before after show "length (kl_weights kls') = e" by simp
  from before after show "int (length (kl_epochs kls')) \<noteq> kl_current_epoch kls'" by simp
qed

text \<open>
  An instance of C9: a schedule that raises at epoch 3 after two completed calls, and a
  mutator that raises on the first call.
\<close>

theorem C9_witness:
  "LearningRateScheduler_init (Callable fails_from_3) =
     Inr \<lparr>lr_fn = fails_from_3, lr_current_epoch = 0, current_lr = VInt 0, lr_epochs = [],
          learning_rate = []\<rparr>
   \<and> repeat_call 2 (LearningRateScheduler_on_epoch_end record_value)
       (\<lparr>lr_fn = fails_from_3, lr_current_epoch = 0, current_lr = VInt 0, lr_epochs = [],
         learning_rate = []\<rparr>, []) =
     ((\<lparr>lr_fn = fails_from_3, lr_current_epoch = 2, current_lr = VFloat (Finite 1),
        lr_epochs = [1, 2], learning_rate = [VFloat (Finite 1), VFloat (Finite 1)]\<rparr>,
       [VFloat (Finite 1), VFloat (Finite 1)]), None)
   \<and> LearningRateScheduler_on_epoch_end record_value
       (\<lparr>lr_fn = fails_from_3, lr_current_epoch = 2, current_lr = VFloat (Finite 1),
         lr_epochs = [1, 2], learning_rate = [VFloat (Finite 1), VFloat (Finite 1)]\<rparr>,
        [VFloat (Finite 1), VFloat (Finite 1)]) =
     ((\<lparr>lr_fn = fails_from_3, lr_current_epoch = 3, current_lr = VFloat (Finite 1),
        lr_epochs = [1, 2], learning_rate = [VFloat (Finite 1), VFloat (Finite 1)]\<rparr>,
       [VFloat (Finite 1), VFloat (Finite 1)]), Some (Exception ''schedule failed''))
   \<and> KLWeightScheduler_init (Callable decay) =
     Inr \<lparr>kl_fn = decay, kl_current_epoch = 0, current_w = VInt 0, kl_epochs = [],
          kl_weights = []\<rparr>
   \<and> repeat_call 0 (KLWeightScheduler_on_epoch_end refuse_value)
       (\<lparr>kl_fn = decay, kl_current_epoch = 0, current_w = VInt 0, kl_epochs = [],
         kl_weights = []\<rparr>, []) =
     ((\<lparr>kl_fn = decay, kl_current_epoch = 0, current_w = VInt 0, kl_epochs = [],
        kl_weights = []\<rparr>, []), None)
   \<and> KLWeightScheduler_on_epoch_end refuse_value
       (\<lparr>kl_fn = decay, kl_current_epoch = 0, current_w = VInt 0, kl_epochs = [],
         kl_weights = []\<rparr>, []) =
     ((\<lparr>kl_fn = decay, kl_current_epoch = 1, current_w = VFloat (Finite 1), kl_epochs = [],
        kl_weights = []\<rparr>, []), Some (Exception ''mutator failed''))
   \<and> int (length ([1, 2] :: int list)) \<noteq> 3
   \<and> int (length ([] :: int list)) \<noteq> 1"
proof -
  let ?L0 = "\<lparr>lr_fn = fails_from_3, lr_current_epoch = 0, current_lr = VInt 0, lr_epochs = [],
          learning_rate = []\<rparr>"
  let ?L2 = "\<lparr>lr_fn = fails_from_3, lr_current_epoch = 2, current_lr = VFloat (Finite 1),
        lr_epochs = [1, 2], learning_rate = [VFloat (Finite 1), VFloat (Finite 1)]\<rparr>"
  let ?L3 = "\<lparr>lr_fn = fails_from_3, lr_current_epoch = 3, current_lr = VFloat (Finite 1),
        lr_epochs = [1, 2], learning_rate = [VFloat (Finite 1), VFloat (Finite 1)]\<rparr>"
  let ?m = "[VFloat (Finite 1), VFloat (Finite 1)]"
  let ?K0 = "\<lparr>kl_fn = decay, kl_current_epoch = 0, current_w = VInt 0, kl_epochs = [],
          kl_weights = []\<rparr>"
  let ?K1 = "\<lparr>kl_fn = decay, kl_current_epoch = 1, current_w = VFloat (Finite 1),
          kl_epochs = [], kl_weights = []\<rparr>"
  have li: "LearningRateScheduler_init (Callable fails_from_3) = Inr ?L0"
    by (simp add: LearningRateScheduler_init_def fails_from_3_def)
  have lrun: "repeat_call 2 (LearningRateScheduler_on_epoch_end record_value) (?L0, []) =
      ((?L2, ?m), None)"
    by (simp add: numeral_2_eq_2 LearningRateScheduler_on_epoch_end_def fails_from_3_def
        record_value_def Let_def)
  have lfail: "LearningRateScheduler_on_epoch_end record_value (?L2, ?m) =
      ((?L3, ?m), Some (Exception ''schedule failed''))"
    by (simp add: LearningRateScheduler_on_epoch_end_def fails_from_3_def Let_def)
  have ki: "KLWeightScheduler_init (Callable decay) = Inr ?K0"
    by (simp add: KLWeightScheduler_init_def decay_def decay_value_def)
  have krun: "repeat_call 0 (KLWeightScheduler_on_epoch_end refuse_value) (?K0, []) =
      ((?K0, []), None)"
    by simp
  have kfail: "KLWeightScheduler_on_epoch_end refuse_value (?K0, []) =
      ((?K1, []), Some (Exception ''mutator failed''))"
    by (simp add: KLWeightScheduler_on_epoch_end_def decay_def decay_value_def
        refuse_value_def Let_def)
  from C9_failed_scheduler_call_leaves_epoch_ahead
    [of "Callable fails_from_3" ?L0 2 record_value "[]" ?L2 ?m ?L3 ?m
        "Exception ''schedule failed''"]
  have "LearningRateScheduler_init (Callable fails_from_3) = Inr ?L0
      \<and> repeat_call 2 (LearningRateScheduler_on_epoch_end record_value) (?L0, []) =
          ((?L2, ?m), None)
      \<and> LearningRateScheduler_on_epoch_end record_value (?L2, ?m) =
          ((?L3, ?m), Some (Exception ''schedule failed''))
    \<longrightarrow> lr_current_epoch ?L3 = int 2 + 1 \<and> length (lr_epochs ?L3) = 2
      \<and> length (learning_rate ?L3) = 2
      \<and> int (length (lr_epochs ?L3)) \<noteq> lr_current_epoch ?L3"
    by (rule conjunct1)
  with li lrun lfail
  have l: "int (length (lr_epochs ?L3)) \<noteq> lr_current_epoch ?L3"
    by (simp only: simp_thms)
  from C9_failed_scheduler_call_leaves_epoch_ahead
    [where fn = "Callable decay" and kls0 = ?K0 and e = 0 and set_kl_weight = refuse_value
       and ?n0.0 = "[]" and kls = ?K0 and n = "[]" and kls' = ?K1 and n' = "[]"
       and y = "Exception ''mutator failed''"]
  have "KLWeightScheduler_init (Callable decay) = Inr ?K0
      \<and> repeat_call 0 (KLWeightScheduler_on_epoch_end refuse_value) (?K0, []) =
          ((?K0, []), None)
      \<and> KLWeightScheduler_on_epoch_end refuse_value (?K0, []) =
          ((?K1, []), Some (Exception ''mutator failed''))
    \<longrightarrow> kl_current_epoch ?K1 = int 0 + 1 \<and> length (kl_epochs ?K1) = 0
      \<and> length (kl_weights ?K1) = 0
      \<and> int (length (kl_epochs ?K1)) \<noteq> kl_current_epoch ?K1"
    by (rule conjunct2)
  with ki krun kfail
  have k: "int (length (kl_epochs ?K1)) \<noteq> kl_current_epoch ?K1"
    by (simp only: simp_thms)
  from l k li lrun lfail ki krun kfail show ?thesis by simp
qed

section \<open>Construction\<close>

text \<open>
  C4. The constructors validate their arguments and raise before a callback exists.
  \<^verbatim>\<open>LearningRateScheduler\<close> and \<^verbatim>\<open>KLWeightScheduler\<close> raise a
  \<^verbatim>\<open>TypeError\<close> when \<open>fn\<close> is not callable and when \<open>fn(1)\<close> returns a value
  that is not a float; a scheduler is constructed only from a callable whose value at 1
  is a float. \<^verbatim>\<open>EarlyStopping\<close> raises a \<^verbatim>\<open>TypeError\<close> when \<open>patience\<close>
  is not an instance of \<^verbatim>\<open>int\<close>, a \<^verbatim>\<open>ValueError\<close> when it is negative, and a
  \<^verbatim>\<open>TypeError\<close> when the accessor is not callable; it is constructed only from a
  non-negative integer and a callable.
\<close>

theorem C4_construction_is_validated:
  "LearningRateScheduler_init (NotCallable v) = Inl (TypeError ''fn must be a callable'')
   \<and> (f 1 = Inr r \<and> \<not> isinstance_float r \<longrightarrow>
        LearningRateScheduler_init (Callable f) = Inl (TypeError ''fn must return a float''))
   \<and> (LearningRateScheduler_init a = Inr lrs \<longrightarrow>
        (\<exists>g q. a = Callable g \<and> g 1 = Inr (VFloat q)))
   \<and> KLWeightScheduler_init (NotCallable v) = Inl (TypeError ''fn must be a callable'')
   \<and> (f 1 = Inr r \<and> \<not> isinstance_float r \<longrightarrow>
        KLWeightScheduler_init (Callable f) = Inl (TypeError ''fn must return a float''))
   \<and> (KLWeightScheduler_init a = Inr kls \<longrightarrow>
        (\<exists>g q. a = Callable g \<and> g 1 = Inr (VFloat q)))
   \<and> (\<not> isinstance_int p \<longrightarrow>
        EarlyStopping_init mf p = Inl (TypeError ''patience must be an int''))
   \<and> (isinstance_int p \<and> int_value p < 0 \<longrightarrow>
        EarlyStopping_init mf p = Inl (ValueError ''patience must be non-negative''))
   \<and> (isinstance_int p \<and> 0 \<le> int_value p \<longrightarrow>
        EarlyStopping_init (NotCallable v) p = Inl (TypeError ''metric_fn must be a callable''))
   \<and> (EarlyStopping_init mf p = Inr es \<longrightarrow>
        isinstance_int p \<and> 0 \<le> int_value p \<and> (\<exists>g. mf = Callable g))"
proof -
  have l1: "LearningRateScheduler_init (NotCallable v) = Inl (TypeError ''fn must be a callable'')"
    by (simp add: LearningRateScheduler_init_def)
  have l2: "f 1 = Inr r \<and> \<not> isinstance_float r \<longrightarrow>
        LearningRateScheduler_init (Callable f) = Inl (TypeError ''fn must return a float'')"
    by (simp add: LearningRateScheduler_init_def)
  have l3: "LearningRateScheduler_init a = Inr lrs \<longrightarrow>
        (\<exists>g q. a = Callable g \<and> g 1 = Inr (VFloat q))"
  proof
    assume i: "LearningRateScheduler_init a = Inr lrs"
    then obtain g where a: "a = Callable g"
      by (cases a) (simp_all add: LearningRateScheduler_init_def)
    with i obtain r where r: "g 1 = Inr r" and fl: "isinstance_float r"
      by (cases "g 1") (simp_all add: LearningRateScheduler_init_def split: if_splits)
    from fl obtain q where "r = VFloat q" by (cases r) simp_all
    with a r show "\<exists>g q. a = Callable g \<and> g 1 = Inr (VFloat q)" by simp
  qed
  have k1: "KLWeightScheduler_init (NotCallable v) = Inl (TypeError ''fn must be a callable'')"
    by (simp add: KLWeightScheduler_init_def)
  have k2: "f 1 = Inr r \<and> \<not> isinstance_float r \<longrightarrow>
        KLWeightScheduler_init (Callable f) = Inl (TypeError ''fn must return a float'')"
    by (simp add: KLWeightScheduler_init_def)
  have k3: "KLWeightScheduler_init a = Inr kls \<longrightarrow>
        (\<exists>g q. a = Callable g \<and> g 1 = Inr (VFloat q))"
  proof
    assume i: "KLWeightScheduler_init a = Inr kls"
    then obtain g where a: "a = Callable g"
      by (cases a) (simp_all add: KLWeightScheduler_init_def)
    with i obtain r where r: "g 1 = Inr r" and fl: "isinstance_float r"
      by (cases "g 1") (simp_all add: KLWeightScheduler_init_def split: if_splits)
    from fl obtain q where "r = VFloat q" by (cases r) simp_all
    with a r show "\<exists>g q. a = Callable g \<and> g 1 = Inr (VFloat q)" by simp
  qed
  have e1: "\<not> isinstance_int p \<longrightarrow>
        EarlyStopping_init mf p = Inl (TypeError ''patience must be an int'')"
    by (simp add: EarlyStopping_init_def)
  have e2: "isinstance_int p \<and> int_value p < 0 \<longrightarrow>
        EarlyStopping_init mf p = Inl (ValueError ''patience must be non-negative'')"
    by (simp add: EarlyStopping_init_def)
  have e3: "isinstance_int p \<and> 0 \<le> int_value p \<longrightarrow>
        EarlyStopping_init (NotCallable v) p = Inl (TypeError ''metric_fn must be a callable'')"
    by (simp add: EarlyStopping_init_def)
  have e4: "EarlyStopping_init mf p = Inr es \<longrightarrow>
        isinstance_int p \<and> 0 \<le> int_value p \<and> (\<exists>g. mf = Callable g)"
    by (cases mf) (auto simp add: EarlyStopping_init_def split: if_splits)
  from l1 l2 l3 k1 k2 k3 e1 e2 e3 e4 show ?thesis by (intro conjI)
qed

text \<open>
  Instances of C4: a schedule that returns the string x, the patience -1, and the integer
  5 in place of a function.
\<close>

theorem C4_witness:
  "LearningRateScheduler_init (NotCallable (VInt 5)) = Inl (TypeError ''fn must be a callable'')
   \<and> LearningRateScheduler_init (Callable (\<lambda>e. Inr (VStr ''x''))) =
       Inl (TypeError ''fn must return a float'')
   \<and> KLWeightScheduler_init (NotCallable (VInt 5)) = Inl (TypeError ''fn must be a callable'')
   \<and> KLWeightScheduler_init (Callable (\<lambda>e. Inr (VStr ''x''))) =
       Inl (TypeError ''fn must return a float'')
   \<and> EarlyStopping_init (Callable (\<lambda>w :: unit. Inr (Finite 1))) (VStr ''3'') =
       Inl (TypeError ''patience must be an int'')
   \<and> EarlyStopping_init (Callable (\<lambda>w :: unit. Inr (Finite 1))) (VInt (- 1)) =
       Inl (ValueError ''patience must be non-negative'')
   \<and> EarlyStopping_init (NotCallable (VInt 5) :: (unit \<Rightarrow> exn + pyfloat) pyarg) (VInt 0) =
       Inl (TypeError ''metric_fn must be a callable'')"
  using
    C4_construction_is_validated
      [where v = "VInt 5" and f = "\<lambda>e. Inr (VStr ''x'')" and r = "VStr ''x''"
         and p = "VStr ''3''" and mf = "Callable (\<lambda>w :: unit. Inr (Finite 1))"]
    C4_construction_is_validated
      [where v = "VInt 5" and f = "\<lambda>e. Inr (VStr ''x'')" and r = "VStr ''x''"
         and p = "VInt (- 1)" and mf = "Callable (\<lambda>w :: unit. Inr (Finite 1))"]
    C4_construction_is_validated
      [where v = "VInt 5" and f = "\<lambda>e. Inr (VStr ''x'')" and r = "VStr ''x''"
         and p = "VInt 0" and mf = "NotCallable (VInt 5) :: (unit \<Rightarrow> exn + pyfloat) pyarg"]
  by simp blast

section \<open>MonitorMetric\<close>

lemma MonitorMetric_step_completed:
  assumes "MonitorMetric_on_epoch_end metric name_of (self, model, out) =
             ((self', model', out'), None)"
  shows "mm_current_epoch self' = mm_current_epoch self + 1
     \<and> mm_epochs self' = mm_epochs self @ [mm_current_epoch self + 1]
     \<and> length (metrics self') = Suc (length (metrics self))"
  using assms
  by (auto simp add: MonitorMetric_on_epoch_end_def Let_def
      split: sum.splits prod.splits if_splits)

lemma MonitorMetric_calls_grow:
  "repeat_call n (MonitorMetric_on_epoch_end metric name_of) (self0, model0, out0) =
     ((self, model, out), None) \<Longrightarrow>
   mm_current_epoch self = mm_current_epoch self0 + int n
     \<and> mm_epochs self =
         mm_epochs self0 @ [mm_current_epoch self0 + 1..mm_current_epoch self0 + int n]
     \<and> length (metrics self) = length (metrics self0) + n"
proof (induction n arbitrary: self0 model0 out0)
  case 0
  then show ?case by simp
next
  case (Suc n)
  obtain self1 model1 out1 r where
    st: "MonitorMetric_on_epoch_end metric name_of (self0, model0, out0) =
           ((self1, model1, out1), r)"
    by (cases "MonitorMetric_on_epoch_end metric name_of (self0, model0, out0)") auto
  with Suc.prems have r: "r = None"
    and rest: "repeat_call n (MonitorMetric_on_epoch_end metric name_of)
                 (self1, model1, out1) = ((self, model, out), None)"
    by (auto split: option.splits)
  from st r MonitorMetric_step_completed [of metric name_of self0 model0 out0 self1 model1 out1]
  have first: "mm_current_epoch self1 = mm_current_epoch self0 + 1
     \<and> mm_epochs self1 = mm_epochs self0 @ [mm_current_epoch self0 + 1]
     \<and> length (metrics self1) = Suc (length (metrics self0))"
    by simp
  have up: "[mm_current_epoch self0 + 1..mm_current_epoch self0 + int (Suc n)] =
      (mm_current_epoch self0 + 1) #
        [mm_current_epoch self0 + 1 + 1..mm_current_epoch self0 + 1 + int n]"
    by (subst upto_rec1) (simp_all add: add.commute add.left_commute)
  from Suc.IH [OF rest] first up show ?case by simp
qed

lemma MonitorMetric_init_fields:
  assumes "MonitorMetric_init get_metric_fn make_generator metric_arg x y verbose_arg = Inr self"
  shows "current_metric self = NaN \<and> mm_current_epoch self = 0 \<and> metrics self = []
     \<and> mm_epochs self = [] \<and> verbose self = verbose_arg"
  using assms
  by (auto simp add: MonitorMetric_init_def split: sum.splits)

lemma MonitorMetric_step_ok:
  assumes "metric (mm_metric_fn self) (data self) model = (model1, Inr v)"
    and "name_of (mm_metric_fn self) = Inr s"
  shows "MonitorMetric_on_epoch_end metric name_of (self, model, out) =
     ((self\<lparr>current_metric := v, mm_current_epoch := mm_current_epoch self + 1,
             metrics := metrics self @ [v],
             mm_epochs := mm_epochs self @ [mm_current_epoch self + 1]\<rparr>,
       model1,
       if verbose self then out @ [(mm_current_epoch self + 1, s, v)] else out), None)"
  using assms by (simp add: MonitorMetric_on_epoch_end_def Let_def)

lemma MonitorMetric_calls_complete:
  assumes m: "\<forall>mf d t. \<exists>t' v. metric mf d t = (t', Inr v)"
    and nm: "\<forall>mf. \<exists>s. name_of mf = Inr s"
  shows "snd (repeat_call n (MonitorMetric_on_epoch_end metric name_of) (self, model, out)) = None"
proof (induction n arbitrary: self model out)
  case 0
  show ?case by simp
next
  case (Suc n)
  from m obtain t' v where mv: "metric (mm_metric_fn self) (data self) model = (t', Inr v)"
    by blast
  from nm obtain s where s: "name_of (mm_metric_fn self) = Inr s"
    by blast
  show ?case
    by (simp only: repeat_call.simps MonitorMetric_step_ok [where metric = metric and name_of = name_of, OF mv s]
        prod.case option.case Suc.IH)
qed

text \<open>
  C5. A \<^verbatim>\<open>MonitorMetric\<close> that has been constructed has \<open>current_metric\<close> NaN
  before any call of \<^verbatim>\<open>on_epoch_end\<close>. After \<open>n\<close> calls that all completed,
  \<open>epochs\<close> and \<open>metrics\<close> have length \<open>n\<close> and \<open>epochs\<close> is \<open>[1..n]\<close>.
  The calls do all complete when the trainer's metric computation and the lookup of the
  metric's name never raise.
\<close>

theorem C5_monitor_metric_history:
  assumes init:
    "MonitorMetric_init get_metric_fn make_generator metric_arg x y verbose_arg = Inr self0"
  shows "current_metric self0 = NaN
     \<and> (repeat_call n (MonitorMetric_on_epoch_end metric name_of) (self0, model0, out0) =
           ((self, model, out), None) \<longrightarrow>
         length (mm_epochs self) = n \<and> length (metrics self) = n
           \<and> mm_epochs self = [1..int n])
     \<and> ((\<forall>mf d t. \<exists>t' v. metric mf d t = (t', Inr v)) \<and> (\<forall>mf. \<exists>s. name_of mf = Inr s) \<longrightarrow>
         snd (repeat_call n (MonitorMetric_on_epoch_end metric name_of) (self0, model0, out0))
           = None)"
proof (intro conjI impI)
  from MonitorMetric_init_fields [OF init] show "current_metric self0 = NaN" by simp
next
  assume run: "repeat_call n (MonitorMetric_on_epoch_end metric name_of) (self0, model0, out0) =
           ((self, model, out), None)"
  from MonitorMetric_calls_grow [OF run] MonitorMetric_init_fields [OF init]
  have e: "mm_epochs self = [1..int n]" and l: "length (metrics self) = n"
    by simp_all
  from e show "mm_epochs self = [1..int n]" .
  from l show "length (metrics self) = n" .
  from e show "length (mm_epochs self) = n" by simp
next
  assume "(\<forall>mf d t. \<exists>t' v. metric mf d t = (t', Inr v)) \<and> (\<forall>mf. \<exists>s. name_of mf = Inr s)"
  then show "snd (repeat_call n (MonitorMetric_on_epoch_end metric name_of)
      (self0, model0, out0)) = None"
    by (simp add: MonitorMetric_calls_complete)
qed

text \<open>An instance of C5: two epochs, not verbose, on the trainer whose metric is 0.5.\<close>

theorem C5_witness:
  "MonitorMetric_init lookup_metric pair_data ''mse'' [1 :: int, 2] (Some [3 :: int]) False =
     Inr \<lparr>mm_metric_fn = ''mse'', data = ([1, 2], Some [3]), current_metric = NaN,
          mm_current_epoch = 0, metrics = [], mm_epochs = [], verbose = False\<rparr>
   \<and> current_metric \<lparr>mm_metric_fn = ''mse'', data = ([1 :: int, 2], Some [3 :: int]),
          current_metric = NaN, mm_current_epoch = 0, metrics = [], mm_epochs = [],
          verbose = False\<rparr> = NaN
   \<and> repeat_call 2 (MonitorMetric_on_epoch_end steady_metric metric_name)
       (\<lparr>mm_metric_fn = ''mse'', data = ([1 :: int, 2], Some [3 :: int]), current_metric = NaN,
          mm_current_epoch = 0, metrics = [], mm_epochs = [], verbose = False\<rparr>, 0, []) =
     ((\<lparr>mm_metric_fn = ''mse'', data = ([1, 2], Some [3]), current_metric = Finite (1 / 2),
          mm_current_epoch = 2, metrics = [Finite (1 / 2), Finite (1 / 2)],
          mm_epochs = [1, 2], verbose = False\<rparr>, 2, []), None)
   \<and> length [1, 2 :: int] = 2
   \<and> length [Finite (1 / 2), Finite (1 / 2)] = 2
   \<and> [1, 2] = [1..int 2]"
proof -
  let ?S0 = "\<lparr>mm_metric_fn = ''mse'', data = ([1 :: int, 2], Some [3 :: int]),
          current_metric = NaN, mm_current_epoch = 0, metrics = [], mm_epochs = [],
          verbose = False\<rparr>"
  let ?S2 = "\<lparr>mm_metric_fn = ''mse'', data = ([1 :: int, 2], Some [3 :: int]),
          current_metric = Finite (1 / 2), mm_current_epoch = 2,
          metrics = [Finite (1 / 2), Finite (1 / 2)], mm_epochs = [1, 2], verbose = False\<rparr>"
  have init: "MonitorMetric_init lookup_metric pair_data ''mse'' [1 :: int, 2] (Some [3 :: int])
      False = Inr ?S0"
    by (simp add: MonitorMetric_init_def lookup_metric_def pair_data_def)
  have run: "repeat_call 2 (MonitorMetric_on_epoch_end steady_metric metric_name) (?S0, 0, []) =
      ((?S2, 2, []), None)"
    by (simp add: numeral_2_eq_2 MonitorMetric_on_epoch_end_def steady_metric_def Let_def)
  note t = C5_monitor_metric_history
      [OF init, of 2 steady_metric metric_name 0 "[]" ?S2 2 "[]"]
  have a: "current_metric ?S0 = NaN"
    using t by (rule conjunct1)
  have b: "length (mm_epochs ?S2) = 2 \<and> length (metrics ?S2) = 2
      \<and> mm_epochs ?S2 = [1..int 2]"
    using t [THEN conjunct2, THEN conjunct1] run by (rule mp)
  from a b init run show ?thesis by simp
qed

text \<open>
  C8. When the trainer's metric computation raises, \<^verbatim>\<open>on_epoch_end\<close> of a
  \<^verbatim>\<open>MonitorMetric\<close> is left by that exception with every field of the callback
  (and what has been printed) as before the call; only the trainer may have changed.
\<close>

theorem C8_monitor_metric_failure_is_atomic:
  assumes "metric (mm_metric_fn self) (data self) model = (model1, Inl x)"
  shows "MonitorMetric_on_epoch_end metric name_of (self, model, out) =
           ((self, model1, out), Some x)"
  using assms by (simp add: MonitorMetric_on_epoch_end_def)

text \<open>An instance of C8: the third epoch on the trainer whose metric computation raises.\<close>

theorem C8_witness:
  "failing_metric ''mse'' ([1 :: int], None :: int list option) 4 =
     (5, Inl (Exception ''metric failed''))
   \<and> MonitorMetric_on_epoch_end failing_metric metric_name
       (\<lparr>mm_metric_fn = ''mse'', data = ([1 :: int], None :: int list option),
          current_metric = Finite (1 / 2), mm_current_epoch = 2,
          metrics = [Finite 1, Finite (1 / 2)], mm_epochs = [1, 2], verbose = True\<rparr>,
        4, [(1, ''mse'', Finite 1), (2, ''mse'', Finite (1 / 2))]) =
     ((\<lparr>mm_metric_fn = ''mse'', data = ([1], None),
          current_metric = Finite (1 / 2), mm_current_epoch = 2,
          metrics = [Finite 1, Finite (1 / 2)], mm_epochs = [1, 2], verbose = True\<rparr>,
        5, [(1, ''mse'', Finite 1), (2, ''mse'', Finite (1 / 2))]),
      Some (Exception ''metric failed''))"
proof -
  let ?S = "\<lparr>mm_metric_fn = ''mse'', data = ([1 :: int], None :: int list option),
          current_metric = Finite (1 / 2), mm_current_epoch = 2,
          metrics = [Finite 1, Finite (1 / 2)], mm_epochs = [1, 2], verbose = True\<rparr>"
  have f: "failing_metric (mm_metric_fn ?S) (data ?S) 4 = (5, Inl (Exception ''metric failed''))"
    by (simp add: failing_metric_def)
  from f C8_monitor_metric_failure_is_atomic [of failing_metric ?S 4 5
      "Exception ''metric failed''" metric_name
      "[(1, ''mse'', Finite 1), (2, ''mse'', Finite (1 / 2))]"]
  show ?thesis by simp
qed

section \<open>MonitorParameter\<close>

lemma MonitorParameter_step_ok:
  assumes "posterior_mean (params self) model = (model1, Inr snap)"
  shows "MonitorParameter_on_epoch_end posterior_mean (self, model) =
     ((self\<lparr>current_params := Some snap, mp_current_epoch := mp_current_epoch self + 1,
             parameter_values := parameter_values self @ [snap],
             mp_epochs := mp_epochs self @ [mp_current_epoch self + 1]\<rparr>, model1), None)"
  using assms by (simp add: MonitorParameter_on_epoch_end_def Let_def)

lemma MonitorParameter_calls_record:
  "repeat_call n (MonitorParameter_on_epoch_end posterior_mean) (self0, model0) =
     ((self, model), None) \<Longrightarrow>
   parameter_values self =
     parameter_values self0 @ returned (posterior_mean (params self0)) n model0
   \<and> length (returned (posterior_mean (params self0)) n model0) = n
   \<and> params self = params self0"
proof (induction n arbitrary: self0 model0)
  case 0
  then show ?case by simp
next
  case (Suc n)
  obtain model1 r where pm: "posterior_mean (params self0) model0 = (model1, r)"
    by (cases "posterior_mean (params self0) model0")
  show ?case
  proof (cases r)
    case (Inl x)
    with pm have "MonitorParameter_on_epoch_end posterior_mean (self0, model0) =
        ((self0, model1), Some x)"
      by (simp add: MonitorParameter_on_epoch_end_def)
    with Suc.prems show ?thesis by simp
  next
    case (Inr snap)
    let ?self1 = "self0\<lparr>current_params := Some snap,
        mp_current_epoch := mp_current_epoch self0 + 1,
        parameter_values := parameter_values self0 @ [snap],
        mp_epochs := mp_epochs self0 @ [mp_current_epoch self0 + 1]\<rparr>"
    from pm Inr have step: "MonitorParameter_on_epoch_end posterior_mean (self0, model0) =
        ((?self1, model1), None)"
      by (simp add: MonitorParameter_step_ok)
    with Suc.prems have rest: "repeat_call n (MonitorParameter_on_epoch_end posterior_mean)
        (?self1, model1) = ((self, model), None)"
      by simp
    from Suc.IH [OF rest] pm Inr show ?thesis by simp
  qed
qed

text \<open>
  C6. \<open>current_params\<close> is \<^verbatim>\<open>None\<close> after the construction. A call of
  \<^verbatim>\<open>on_epoch_end\<close> for which the trainer's \<^verbatim>\<open>posterior_mean\<close>, called with
  \<open>params\<close>, returns \<open>snap\<close> appends exactly \<open>snap\<close> to \<open>parameter_values\<close>
  and stores it in \<open>current_params\<close>. After \<open>n\<close> completed calls from the
  construction, \<open>parameter_values\<close> is the list of the \<open>n\<close> values that
  \<^verbatim>\<open>posterior_mean\<close> returned, in order.
\<close>

theorem C6_monitor_parameter_passes_snapshots_through:
  "current_params (MonitorParameter_init x y ps) = None
   \<and> (posterior_mean (params self) model = (model1, Inr snap) \<longrightarrow>
        MonitorParameter_on_epoch_end posterior_mean (self, model) =
          ((self\<lparr>current_params := Some snap, mp_current_epoch := mp_current_epoch self + 1,
                  parameter_values := parameter_values self @ [snap],
                  mp_epochs := mp_epochs self @ [mp_current_epoch self + 1]\<rparr>, model1), None))
   \<and> (repeat_call n (MonitorParameter_on_epoch_end posterior_mean)
          (MonitorParameter_init x' y' ps', model0) = ((self', model'), None) \<longrightarrow>
        parameter_values self' = returned (posterior_mean ps') n model0
          \<and> length (parameter_values self') = n)"
proof (intro conjI impI)
  show "current_params (MonitorParameter_init x y ps) = None"
    by (simp add: MonitorParameter_init_def)
next
  assume "posterior_mean (params self) model = (model1, Inr snap)"
  then show "MonitorParameter_on_epoch_end posterior_mean (self, model) =
          ((self\<lparr>current_params := Some snap, mp_current_epoch := mp_current_epoch self + 1,
                  parameter_values := parameter_values self @ [snap],
                  mp_epochs := mp_epochs self @ [mp_current_epoch self + 1]\<rparr>, model1), None)"
    by (rule MonitorParameter_step_ok)
next
  assume run: "repeat_call n (MonitorParameter_on_epoch_end posterior_mean)
          (MonitorParameter_init x' y' ps', model0) = ((self', model'), None)"
  from MonitorParameter_calls_record [OF run]
  show "parameter_values self' = returned (posterior_mean ps') n model0"
    by (simp add: MonitorParameter_init_def)
  from MonitorParameter_calls_record [OF run]
  show "length (parameter_values self') = n"
    by (simp add: MonitorParameter_init_def)
qed

text \<open>An instance of C6: one call at trainer state 7, and two calls from the construction.\<close>

theorem C6_witness:
  "drifting_mean (params \<lparr>params = None, current_params = None, mp_current_epoch = 0,
       parameter_values = [], mp_epochs = []\<rparr>) 7 = (8, Inr [(''weight'', 7)])
   \<and> MonitorParameter_on_epoch_end drifting_mean
       (\<lparr>params = None, current_params = None, mp_current_epoch = 0,
          parameter_values = [], mp_epochs = []\<rparr>, 7) =
     ((\<lparr>params = None, current_params = Some [(''weight'', 7)], mp_current_epoch = 1,
          parameter_values = [[(''weight'', 7)]], mp_epochs = [1]\<rparr>, 8), None)
   \<and> repeat_call 2 (MonitorParameter_on_epoch_end drifting_mean)
       (MonitorParameter_init [1 :: int] (None :: int list option) None, 0) =
     ((\<lparr>params = None, current_params = Some [(''weight'', 1)], mp_current_epoch = 2,
          parameter_values = [[(''weight'', 0)], [(''weight'', 1)]], mp_epochs = [1, 2]\<rparr>, 2),
      None)
   \<and> returned (drifting_mean None) 2 0 = [[(''weight'', 0)], [(''weight'', 1)]]"
proof -
  let ?S0 = "\<lparr>params = None :: string list option,
       current_params = None :: (string \<times> int) list option, mp_current_epoch = 0,
       parameter_values = [], mp_epochs = []\<rparr>"
  let ?S2 = "\<lparr>params = None :: string list option,
       current_params = Some [(''weight'', 1 :: int)], mp_current_epoch = 2,
       parameter_values = [[(''weight'', 0)], [(''weight'', 1)]], mp_epochs = [1, 2]\<rparr>"
  have pm: "drifting_mean (params ?S0) 7 = (8, Inr [(''weight'', 7)])"
    by (simp add: drifting_mean_def)
  have run: "repeat_call 2 (MonitorParameter_on_epoch_end drifting_mean)
       (MonitorParameter_init [1 :: int] (None :: int list option) None, 0) = ((?S2, 2), None)"
    by (simp add: numeral_2_eq_2 MonitorParameter_on_epoch_end_def MonitorParameter_init_def
        drifting_mean_def Let_def)
  note t = C6_monitor_parameter_passes_snapshots_through
      [of "[1 :: int]" "None :: int list option" "None :: string list option"
          drifting_mean ?S0 7 8 "[(''weight'', 7)]" 2 "[1 :: int]" "None :: int list option"
          "None :: string list option" 0 ?S2 2]
  have a: "MonitorParameter_on_epoch_end drifting_mean (?S0, 7) =
      ((?S0\<lparr>current_params := Some [(''weight'', 7)],
              mp_current_epoch := mp_current_epoch ?S0 + 1,
              parameter_values := parameter_values ?S0 @ [[(''weight'', 7)]],
              mp_epochs := mp_epochs ?S0 @ [mp_current_epoch ?S0 + 1]\<rparr>, 8), None)"
    using t [THEN conjunct2, THEN conjunct1] pm by (rule mp)
  have b: "parameter_values ?S2 = returned (drifting_mean None) 2 0
      \<and> length (parameter_values ?S2) = 2"
    using t [THEN conjunct2, THEN conjunct2] run by (rule mp)
  from pm a b run show ?thesis by simp
qed

text \<open>
  C7, as the code has it. The constructor of \<^verbatim>\<open>MonitorParameter\<close> takes \<open>x\<close> and
  \<open>y\<close> and stores neither: the callback it builds has the five fields \<open>params\<close>,
  \<open>current_params\<close>, \<open>current_epoch\<close>, \<open>parameter_values\<close> and \<open>epochs\<close>,
  and is the same whatever the data.
\<close>

theorem C7_monitor_parameter_discards_its_data:
  "MonitorParameter_init x y ps =
     \<lparr>params = ps, current_params = None, mp_current_epoch = 0,
      parameter_values = [], mp_epochs = []\<rparr>
   \<and> MonitorParameter_init x y ps = MonitorParameter_init x' y' ps"
  by (simp add: MonitorParameter_init_def)

text \<open>
  Constructed with the data \<open>[1, 2]\<close> and \<open>[3]\<close>, the callback holds none of it and
  equals the one constructed with no data.
\<close>

theorem C7_counterexample:
  "(MonitorParameter_init [1 :: int, 2] (Some [3 :: int]) (None :: string list option)
      :: (string list, (string \<times> int) list) MonitorParameter) =
     \<lparr>params = None, current_params = None, mp_current_epoch = 0,
      parameter_values = [], mp_epochs = []\<rparr>
   \<and> (MonitorParameter_init [1 :: int, 2] (Some [3 :: int]) (None :: string list option)
      :: (string list, (string \<times> int) list) MonitorParameter) =
     MonitorParameter_init ([] :: int list) (None :: int list option) None"
  by (simp add: MonitorParameter_init_def)

end
